theory Spec2Isabelle
  imports Main "HOL-Library.Word"
begin

unbundle bit_operations_syntax

section \<open>Conventions of the embedding\<close>

text \<open>
  The theory embeds the stream and voice-trigger code of \<^verbatim>\<open>audio_hw.c\<close> (TinyHAL).

  \<^item> The target is the 32-bit ARM userspace of the STM32MP1 boards: \<^verbatim>\<open>int\<close>,
    \<^verbatim>\<open>unsigned int\<close>, \<^verbatim>\<open>long\<close>, \<^verbatim>\<open>size_t\<close> and \<^verbatim>\<open>ssize_t\<close> are 32 bits wide,
    \<^verbatim>\<open>uint64_t\<close>, \<^verbatim>\<open>int64_t\<close> and \<^verbatim>\<open>nsecs_t\<close> are 64 bits wide. Unsigned arithmetic is
    word arithmetic; a signed reading of a word is \<open>sint\<close>.
  \<^item> Return codes (\<^verbatim>\<open>int ret\<close>) are HOL integers; where the source converts a
    \<^verbatim>\<open>size_t\<close> into one, the conversion is written \<open>sint\<close>.
  \<^item> A pointer to a stream is an address (\<open>addr\<close>); the object it points to is passed
    beside it and returned updated. \<^verbatim>\<open>NULL\<close> is \<open>None\<close>.
  \<^item> The mutexes are not modelled: every function is run to completion on its own.
  \<^item> Everything the file calls but does not define (the configuration manager,
    tinyalsa, tinycompress, the resampler, the clock) is an oracle in the record
    \<open>ext\<close>. An oracle answers from the history of external calls made so far, so two
    calls of the same function may answer differently. Calls that act on the outside
    are appended to \<open>trace\<close>.
  \<^item> Where the source has no defined behaviour the model returns a fault: a division
    by zero is \<open>DivByZero\<close>, a dereferenced \<^verbatim>\<open>NULL\<close> is \<open>NullDeref\<close>, an index
    outside an array is \<open>OutOfBounds\<close>.
  \<^item> A function that may loop for ever returns an \<open>option\<close>: \<open>None\<close> is a call
    that does not return.
\<close>

type_synonym addr = nat
type_synonym size_t = "32 word"
type_synonym uint32 = "32 word"
type_synonym uint64 = "64 word"
type_synonym nsecs_t = "64 word"  \<comment> \<open>an \<^verbatim>\<open>int64_t\<close>, read with \<open>sint\<close>\<close>

text \<open>
  Modelled from the spec: \<^verbatim>\<open>struct hw_stream\<close> is declared in \<^verbatim>\<open>audio_config.h\<close>,
  which is not part of the sources. The record has the fields that \<^verbatim>\<open>audio_hw.c\<close>
  reads (nominal rate, period size and count, card and device identity); \<open>hw_id\<close>
  tells two handles apart.
\<close>

record hw_stream =
  hw_id :: nat
  rate :: uint32
  period_size :: uint32
  period_count :: uint32
  card_number :: uint32
  device_number :: uint32

text \<open>
  \<^verbatim>\<open>struct audio_config\<close> (the three members the file sets) and tinyalsa's
  \<^verbatim>\<open>struct pcm_config\<close>. Field names are global in Isabelle, so the members carry the
  prefixes \<open>ac_\<close> and \<open>pc_\<close>.
\<close>

record audio_config =
  ac_sample_rate :: uint32
  ac_channel_mask :: uint32
  ac_format :: uint32

record pcm_config =
  pc_channels :: uint32
  pc_rate :: uint32
  pc_period_size :: uint32
  pc_period_count :: uint32
  pc_format :: uint32
  pc_start_threshold :: uint32
  pc_stop_threshold :: uint32
  pc_silence_threshold :: uint32

datatype pcm_dir = PCM_OUT_MONOTONIC | PCM_IN

text \<open>The calls that act on the outside world, in the order they were made.\<close>

datatype call =
    GetNamedStream string
  | GetStream uint32 uint32 audio_config
  | ApplyRoute hw_stream uint32
  | ReleaseStream hw_stream
  | PcmOpen uint32 uint32 pcm_dir pcm_config
  | PcmClose "addr option"
  | PcmWrite "addr option" size_t
  | PcmRead "addr option" size_t
  | CompressOpen uint32 uint32
  | CompressClose "addr option"
  | CompressStart "addr option"
  | CompressStop "addr option"
  | CompressSetMaxPollWait "addr option" int
  | CompressRead "addr option" size_t
  | Malloc size_t
  | CreateResampler uint32 uint32 uint32
  | ReleaseResampler addr
  | ResampleFromProvider addr size_t
  | Nanosleep int int
  | Usleep uint32

text \<open>Constants of \<^verbatim>\<open>errno.h\<close> and \<^verbatim>\<open>system/audio.h\<close>.\<close>

definition EINVAL :: int where "EINVAL = 22"
definition ENOMEM :: int where "ENOMEM = 12"
definition ENODEV :: int where "ENODEV = 19"

definition AUDIO_DEVICE_IN_BUILTIN_MIC :: uint32 where
  "AUDIO_DEVICE_IN_BUILTIN_MIC = 0x80000004"

definition AUDIO_SOURCE_VOICE_RECOGNITION :: int where
  "AUDIO_SOURCE_VOICE_RECOGNITION = 6"

definition kVoiceTriggerStreamName :: string where
  "kVoiceTriggerStreamName = ''voice trigger''"

definition kVoiceRecogStreamName :: string where
  "kVoiceRecogStreamName = ''voice recognition''"

section \<open>The device context\<close>

datatype voice_state =
    eVoiceNone
  | eVoiceTriggerIdle
  | eVoiceTriggerArmed
  | eVoiceTriggerFired
  | eVoiceRecogIdle
  | eVoiceRecogArmed
  | eVoiceRecogFired
  | eVoiceRecogAudio
  | eVoiceRecogReArm

text \<open>
  \<^verbatim>\<open>struct audio_device\<close>. The anonymous union of \<^verbatim>\<open>voice_trig_stream\<close> and
  \<^verbatim>\<open>voice_recog_stream\<close> is one field; \<^verbatim>\<open>cm\<close> is the oracle record.
\<close>

record audio_device =
  disable_audio :: bool
  mic_mute :: bool
  active_voice_control :: "addr option"
  voice_st :: voice_state
  voice_trig_mic :: uint32
  global_stream :: "hw_stream option"
  voice_trig_stream :: "hw_stream option"

record world =
  dev :: audio_device
  trace :: "call list"

datatype fault = DivByZero | NullDeref | OutOfBounds

section \<open>Input streams: data\<close>

text \<open>
  \<^verbatim>\<open>struct in_resampler\<close>. \<^verbatim>\<open>buffer\<close> is the array of 16-bit samples that
  \<^verbatim>\<open>malloc\<close> returned, \<open>None\<close> for \<^verbatim>\<open>NULL\<close>. \<^verbatim>\<open>in_buffer_frames\<close> is an
  \<^verbatim>\<open>int\<close>: a word, read with \<open>sint\<close> where its sign matters. \<^verbatim>\<open>buf_provider\<close>
  holds the two callbacks \<open>get_next_buffer\<close> and \<open>release_buffer\<close> and nothing else.
\<close>

record in_resampler =
  resampler :: "addr option"
  buffer :: "16 word list option"
  in_buffer_size :: size_t
  in_buffer_frames :: "32 word"
  frames_in :: size_t
  read_status :: int

text \<open>
  \<^verbatim>\<open>struct stream_in_pcm\<close> with the members of its first member
  \<^verbatim>\<open>struct stream_in_common common\<close> written in place. The anonymous union of
  \<^verbatim>\<open>pcm\<close> and \<^verbatim>\<open>compress\<close> is the one field \<open>pcm\<close>. The member
  \<^verbatim>\<open>resampler\<close> is the field \<open>rsp\<close> (the name the source gives to a pointer to
  it), since \<open>resampler\<close> is already the field of \<open>in_resampler\<close>.
  \<^verbatim>\<open>channel_count\<close> is an \<^verbatim>\<open>int\<close> that the file only tests for equality and
  converts to \<^verbatim>\<open>unsigned\<close>.
\<close>

record stream_in_pcm =
  hw :: "hw_stream option"
  standby :: bool
  devices :: uint32
  format :: uint32
  channel_mask :: uint32
  channel_count :: uint32
  sample_rate :: uint32
  frame_size :: size_t
  buffer_size :: size_t
  input_source :: int
  last_read_ns :: nsecs_t
  pcm :: "addr option"
  hw_sample_rate :: uint32
  hw_channel_count :: uint32
  hw_period_size :: uint32
  hw_period_count :: uint32
  rsp :: in_resampler

record timespec =
  tv_sec :: int
  tv_nsec :: int

section \<open>The outside world\<close>

text \<open>
  The functions that \<^verbatim>\<open>audio_hw.c\<close> calls and does not define. Those that take the
  history answer from it. \<open>pcm_read\<close> and \<open>compress_read\<close> answer with their
  return value and the bytes they stored; \<open>resample_from_provider\<close> is the converter
  of \<^verbatim>\<open>audio_utils\<close>: it is given the stream, the world and the caller's buffer, the
  byte offset to write at and the wanted frame count, and answers with the frames it
  produced and all three as it left them (it calls \<open>get_next_buffer\<close> and
  \<open>release_buffer\<close> on the stream as it pleases).
\<close>

record ext =
  atoi :: "string \<Rightarrow> int"
  systemTime :: "call list \<Rightarrow> nsecs_t"
  errno :: "call list \<Rightarrow> int"
  malloc_ok :: "call list \<Rightarrow> size_t \<Rightarrow> bool"
  get_named_stream :: "call list \<Rightarrow> string \<Rightarrow> hw_stream option"
  get_stream :: "call list \<Rightarrow> uint32 \<Rightarrow> uint32 \<Rightarrow> audio_config \<Rightarrow> hw_stream option"
  get_current_routes :: "call list \<Rightarrow> hw_stream option \<Rightarrow> uint32"
  stream_is_compressed_in :: "call list \<Rightarrow> hw_stream \<Rightarrow> bool"
  stream_is_compressed :: "call list \<Rightarrow> hw_stream \<Rightarrow> bool"
  pcm_open :: "call list \<Rightarrow> uint32 \<Rightarrow> uint32 \<Rightarrow> pcm_dir \<Rightarrow> pcm_config \<Rightarrow> addr option"
  pcm_is_ready :: "call list \<Rightarrow> addr \<Rightarrow> bool"
  pcm_frames_to_bytes :: "addr option \<Rightarrow> uint32 \<Rightarrow> uint32"
  pcm_format_from_audio_format :: "uint32 \<Rightarrow> uint32"
  pcm_write :: "call list \<Rightarrow> addr option \<Rightarrow> size_t \<Rightarrow> int"
  pcm_read :: "call list \<Rightarrow> addr option \<Rightarrow> size_t \<Rightarrow> int \<times> 8 word list"
  pcm_get_htimestamp :: "call list \<Rightarrow> addr \<Rightarrow> int \<times> uint32 \<times> timespec"
  compress_open :: "call list \<Rightarrow> uint32 \<Rightarrow> uint32 \<Rightarrow> addr option"
  is_compress_ready :: "call list \<Rightarrow> addr \<Rightarrow> bool"
  compress_read :: "call list \<Rightarrow> addr option \<Rightarrow> size_t \<Rightarrow> int \<times> 8 word list"
  create_resampler :: "call list \<Rightarrow> uint32 \<Rightarrow> uint32 \<Rightarrow> uint32 \<Rightarrow> int \<times> addr option"
  resample_from_provider ::
    "stream_in_pcm \<Rightarrow> world \<Rightarrow> 8 word list \<Rightarrow> nat \<Rightarrow> size_t \<Rightarrow>
       fault + (size_t \<times> stream_in_pcm \<times> world \<times> 8 word list)"

definition emit :: "call list \<Rightarrow> world \<Rightarrow> world" where
  "emit cs w = w\<lparr>trace := trace w @ cs\<rparr>"

section \<open>Voice trigger state machine\<close>

definition do_voice_trigger_open_stream :: "ext \<Rightarrow> string \<Rightarrow> world \<Rightarrow> world" where
  "do_voice_trigger_open_stream x streamName w =
     (let hw = get_named_stream x (trace w) streamName;
          w1 = emit [GetNamedStream streamName]
                 (w\<lparr>dev := (dev w)\<lparr>voice_trig_stream := hw\<rparr>\<rparr>)
      in case hw of
           None \<Rightarrow> w1
         | Some h \<Rightarrow>
             (let mic_device = (if voice_trig_mic (dev w1) \<noteq> 0
                                then voice_trig_mic (dev w1)
                                else AUDIO_DEVICE_IN_BUILTIN_MIC)
              in emit [ApplyRoute h mic_device] w1))"

text \<open>
  Line 2084 of the source is the expression statement
  \<^verbatim>\<open>adev->voice_trig_stream == NULL;\<close>: a comparison whose value is dropped. The
  field is therefore left as it was.
\<close>

definition do_voice_trigger_close_stream :: "world \<Rightarrow> world" where
  "do_voice_trigger_close_stream w =
     (case voice_trig_stream (dev w) of
        None \<Rightarrow> w
      | Some h \<Rightarrow> emit [ApplyRoute h 0, ReleaseStream h] w)"

definition set_voice_st :: "voice_state \<Rightarrow> world \<Rightarrow> world" where
  "set_voice_st s w = w\<lparr>dev := (dev w)\<lparr>voice_st := s\<rparr>\<rparr>"

definition voice_trigger_enable :: "ext \<Rightarrow> world \<Rightarrow> world" where
  "voice_trigger_enable x w =
     (case voice_st (dev w) of
        eVoiceNone \<Rightarrow> w
      | eVoiceTriggerIdle \<Rightarrow>
          set_voice_st eVoiceTriggerArmed
            (do_voice_trigger_open_stream x kVoiceTriggerStreamName w)
      | eVoiceTriggerFired \<Rightarrow>
          set_voice_st eVoiceTriggerArmed
            (do_voice_trigger_open_stream x kVoiceTriggerStreamName w)
      | eVoiceTriggerArmed \<Rightarrow> w
      | eVoiceRecogIdle \<Rightarrow>
          set_voice_st eVoiceRecogArmed
            (do_voice_trigger_open_stream x kVoiceRecogStreamName w)
      | eVoiceRecogArmed \<Rightarrow> w
      | eVoiceRecogFired \<Rightarrow> w
      | eVoiceRecogReArm \<Rightarrow> w
      | eVoiceRecogAudio \<Rightarrow> set_voice_st eVoiceRecogReArm w)"

definition voice_trigger_disable :: "world \<Rightarrow> world" where
  "voice_trigger_disable w =
     (case voice_st (dev w) of
        eVoiceNone \<Rightarrow> w
      | eVoiceTriggerIdle \<Rightarrow> w
      | eVoiceTriggerFired \<Rightarrow>
          set_voice_st eVoiceTriggerIdle (do_voice_trigger_close_stream w)
      | eVoiceTriggerArmed \<Rightarrow>
          set_voice_st eVoiceTriggerIdle (do_voice_trigger_close_stream w)
      | eVoiceRecogIdle \<Rightarrow> w
      | eVoiceRecogArmed \<Rightarrow>
          set_voice_st eVoiceRecogIdle (do_voice_trigger_close_stream w)
      | eVoiceRecogFired \<Rightarrow> w
      | eVoiceRecogAudio \<Rightarrow> w
      | eVoiceRecogReArm \<Rightarrow> set_voice_st eVoiceRecogAudio w)"

definition voice_trigger_triggered :: "world \<Rightarrow> world" where
  "voice_trigger_triggered w =
     (case voice_st (dev w) of
        eVoiceNone \<Rightarrow> w
      | eVoiceTriggerIdle \<Rightarrow> w
      | eVoiceTriggerFired \<Rightarrow> w
      | eVoiceTriggerArmed \<Rightarrow> set_voice_st eVoiceTriggerFired w
      | eVoiceRecogIdle \<Rightarrow> w
      | eVoiceRecogFired \<Rightarrow> w
      | eVoiceRecogAudio \<Rightarrow> w
      | eVoiceRecogReArm \<Rightarrow> w
      | eVoiceRecogArmed \<Rightarrow> set_voice_st eVoiceRecogFired w)"

definition voice_trigger_audio_started_locked :: "world \<Rightarrow> world" where
  "voice_trigger_audio_started_locked w =
     (case voice_st (dev w) of
        eVoiceNone \<Rightarrow> w
      | eVoiceTriggerIdle \<Rightarrow> w
      | eVoiceTriggerArmed \<Rightarrow> w
      | eVoiceTriggerFired \<Rightarrow> w
      | eVoiceRecogIdle \<Rightarrow> w
      | eVoiceRecogArmed \<Rightarrow> w
      | eVoiceRecogFired \<Rightarrow> set_voice_st eVoiceRecogAudio w
      | eVoiceRecogAudio \<Rightarrow> w
      | eVoiceRecogReArm \<Rightarrow> w)"

definition voice_trigger_audio_ended_locked :: "world \<Rightarrow> world" where
  "voice_trigger_audio_ended_locked w =
     (case voice_st (dev w) of
        eVoiceNone \<Rightarrow> w
      | eVoiceTriggerIdle \<Rightarrow> w
      | eVoiceTriggerArmed \<Rightarrow> w
      | eVoiceTriggerFired \<Rightarrow> w
      | eVoiceRecogIdle \<Rightarrow> w
      | eVoiceRecogArmed \<Rightarrow> w
      | eVoiceRecogFired \<Rightarrow> w
      | eVoiceRecogAudio \<Rightarrow>
          set_voice_st eVoiceRecogIdle (do_voice_trigger_close_stream w)
      | eVoiceRecogReArm \<Rightarrow> set_voice_st eVoiceRecogArmed w)"

definition voice_trigger_audio_stream_name :: "audio_device \<Rightarrow> string option" where
  "voice_trigger_audio_stream_name adev =
     (case voice_st adev of
        eVoiceNone \<Rightarrow> Some kVoiceRecogStreamName
      | eVoiceTriggerIdle \<Rightarrow> Some kVoiceRecogStreamName
      | eVoiceTriggerArmed \<Rightarrow> Some kVoiceRecogStreamName
      | eVoiceTriggerFired \<Rightarrow> Some kVoiceRecogStreamName
      | eVoiceRecogIdle \<Rightarrow> None
      | eVoiceRecogArmed \<Rightarrow> None
      | eVoiceRecogReArm \<Rightarrow> None
      | eVoiceRecogFired \<Rightarrow> Some kVoiceRecogStreamName
      | eVoiceRecogAudio \<Rightarrow> None)"

subsection \<open>Replaying events\<close>

text \<open>
  The five events of the arbitrator and the function of the source that each one runs.
\<close>

datatype vt_event =
  Enable | Disable | TriggerFired | AudioCaptureStarted | AudioCaptureEnded

fun vt_run :: "ext \<Rightarrow> world \<Rightarrow> vt_event \<Rightarrow> world" where
  "vt_run x w Enable = voice_trigger_enable x w"
| "vt_run x w Disable = voice_trigger_disable w"
| "vt_run x w TriggerFired = voice_trigger_triggered w"
| "vt_run x w AudioCaptureStarted = voice_trigger_audio_started_locked w"
| "vt_run x w AudioCaptureEnded = voice_trigger_audio_ended_locked w"

definition vt_replay :: "ext \<Rightarrow> world \<Rightarrow> vt_event list \<Rightarrow> world" where
  "vt_replay x w evs = foldl (vt_run x) w evs"

text \<open>
  The transition table as section 4.5 of the specification words it: each event lists
  the states it moves, every other state is left as it is.
\<close>

fun spec_table :: "voice_state \<Rightarrow> vt_event \<Rightarrow> voice_state" where
  "spec_table eVoiceTriggerIdle Enable = eVoiceTriggerArmed"
| "spec_table eVoiceTriggerFired Enable = eVoiceTriggerArmed"
| "spec_table eVoiceRecogIdle Enable = eVoiceRecogArmed"
| "spec_table eVoiceRecogAudio Enable = eVoiceRecogReArm"
| "spec_table eVoiceTriggerFired Disable = eVoiceTriggerIdle"
| "spec_table eVoiceTriggerArmed Disable = eVoiceTriggerIdle"
| "spec_table eVoiceRecogArmed Disable = eVoiceRecogIdle"
| "spec_table eVoiceRecogReArm Disable = eVoiceRecogAudio"
| "spec_table eVoiceTriggerArmed TriggerFired = eVoiceTriggerFired"
| "spec_table eVoiceRecogArmed TriggerFired = eVoiceRecogFired"
| "spec_table eVoiceRecogFired AudioCaptureStarted = eVoiceRecogAudio"
| "spec_table eVoiceRecogAudio AudioCaptureEnded = eVoiceRecogIdle"
| "spec_table eVoiceRecogReArm AudioCaptureEnded = eVoiceRecogArmed"
| "spec_table s _ = s"

section \<open>Input streams: standby, source switching and close\<close>

definition in_resampler_free :: "stream_in_pcm \<Rightarrow> world \<Rightarrow> stream_in_pcm \<times> world" where
  "in_resampler_free i w =
     (let (r1, w1) =
            (case resampler (rsp i) of
               None \<Rightarrow> (rsp i, w)
             | Some r \<Rightarrow> ((rsp i)\<lparr>resampler := None\<rparr>, emit [ReleaseResampler r] w))
      in (i\<lparr>rsp := r1\<lparr>buffer := None\<rparr>\<rparr>, w1))"

definition do_in_compress_pcm_standby ::
  "stream_in_pcm \<Rightarrow> world \<Rightarrow> stream_in_pcm \<times> world" where
  "do_in_compress_pcm_standby i w =
     (let (i1, w1) =
            (if \<not> standby i
             then (i\<lparr>pcm := None\<rparr>, emit [CompressStop (pcm i), CompressClose (pcm i)] w)
             else (i, w))
      in (i1\<lparr>standby := True\<rparr>, w1))"

definition do_in_pcm_standby :: "stream_in_pcm \<Rightarrow> world \<Rightarrow> stream_in_pcm \<times> world" where
  "do_in_pcm_standby i w =
     (let (i1, w1) =
            (if \<not> standby i
             then (i\<lparr>pcm := None\<rparr>, emit [PcmClose (pcm i)] w)
             else (i, w));
          (i2, w2) = in_resampler_free i1 w1
      in (i2\<lparr>standby := True\<rparr>, w2))"

definition in_pcm_standby :: "ext \<Rightarrow> stream_in_pcm \<Rightarrow> world \<Rightarrow> stream_in_pcm \<times> world" where
  "in_pcm_standby x i w =
     (case hw i of
        None \<Rightarrow> (i, w)
      | Some h \<Rightarrow>
          (if stream_is_compressed_in x (trace w) h
           then do_in_compress_pcm_standby i w
           else do_in_pcm_standby i w))"

text \<open>
  \<open>change_input_source_locked x a i value devices w\<close>: \<open>a\<close> is the address of the
  stream \<open>i\<close>. The result is the return code, \<^verbatim>\<open>*was_changed\<close>, the stream and the
  world.
\<close>

definition change_input_source_locked ::
  "ext \<Rightarrow> addr \<Rightarrow> stream_in_pcm \<Rightarrow> string \<Rightarrow> uint32 \<Rightarrow> world \<Rightarrow>
     int \<times> bool \<times> stream_in_pcm \<times> world" where
  "change_input_source_locked x a i val devs w =
     (let new_source = atoi x val in
      if \<not> standby i then (- EINVAL, False, i, w)
      else if input_source i = new_source then (0, False, i, w)
      else
        (let (stream_name, voice_control) =
               (if new_source = AUDIO_SOURCE_VOICE_RECOGNITION
                then (voice_trigger_audio_stream_name (dev w), True)
                else (None, False));
             (hw1, w1) =
               (case stream_name of
                  None \<Rightarrow> (None, w)
                | Some n \<Rightarrow> (get_named_stream x (trace w) n, emit [GetNamedStream n] w));
             config = \<lparr>ac_sample_rate = sample_rate i,
                       ac_channel_mask = channel_mask i,
                       ac_format = format i\<rparr>;
             (hw2, w2) =
               (case hw1 of
                  Some h \<Rightarrow> (Some h, w1)
                | None \<Rightarrow> (get_stream x (trace w1) devs 0 config,
                           emit [GetStream devs 0 config] w1))
         in case hw2 of
              None \<Rightarrow> (- EINVAL, False, i, w2)
            | Some h \<Rightarrow>
                (let w3 = (case hw i of
                             None \<Rightarrow> w2
                           | Some old \<Rightarrow> emit [ReleaseStream old] w2);
                     i1 = i\<lparr>hw := Some h\<rparr>;
                     w4 = (if voice_control
                           then voice_trigger_audio_started_locked
                                  (w3\<lparr>dev := (dev w3)\<lparr>active_voice_control := Some a\<rparr>\<rparr>)
                           else if active_voice_control (dev w3) = Some a
                           then voice_trigger_audio_ended_locked
                                  (w3\<lparr>dev := (dev w3)\<lparr>active_voice_control := None\<rparr>\<rparr>)
                           else w3)
                 in (0, True, i1\<lparr>input_source := new_source\<rparr>, w4))))"

definition do_in_compress_pcm_close :: "stream_in_pcm \<Rightarrow> world \<Rightarrow> world" where
  "do_in_compress_pcm_close i w =
     (case pcm i of
        None \<Rightarrow> w
      | Some c \<Rightarrow> emit [CompressStop (Some c), CompressClose (Some c)] w)"

text \<open>
  \<open>do_close_in_common\<close> ends with \<^verbatim>\<open>free(stream)\<close>: only the world is returned.
  The call through \<^verbatim>\<open>in->stream.common.standby\<close> reaches \<open>in_pcm_standby\<close>, the
  function that \<open>do_init_in_pcm\<close> stores there.
\<close>

definition do_close_in_common :: "ext \<Rightarrow> addr \<Rightarrow> stream_in_pcm \<Rightarrow> world \<Rightarrow> world" where
  "do_close_in_common x a i w =
     (let (i1, w1) = in_pcm_standby x i w;
          w2 = (if active_voice_control (dev w1) = Some a
                then voice_trigger_audio_ended_locked
                       (w1\<lparr>dev := (dev w1)\<lparr>active_voice_control := None\<rparr>\<rparr>)
                else w1)
      in case hw i1 of
           None \<Rightarrow> w2
         | Some h \<Rightarrow> emit [ReleaseStream h] w2)"

definition do_close_in_pcm :: "ext \<Rightarrow> addr \<Rightarrow> stream_in_pcm \<Rightarrow> world \<Rightarrow> world" where
  "do_close_in_pcm x a i w =
     (let w1 = (case hw i of
                  None \<Rightarrow> w
                | Some h \<Rightarrow>
                    (if stream_is_compressed x (trace w) h
                     then do_in_compress_pcm_close i w
                     else w))
      in do_close_in_common x a i w1)"

section \<open>PCM input resampler handling\<close>

text \<open>
  \<^verbatim>\<open>struct resampler_buffer\<close> of \<^verbatim>\<open>audio_utils/resampler.h\<close>: the union of the
  pointers \<^verbatim>\<open>raw\<close>, \<^verbatim>\<open>i16\<close> and \<^verbatim>\<open>i32\<close>, and the frame count. A pointer
  that \<open>get_next_buffer\<close> hands out points into \<^verbatim>\<open>rsp->buffer\<close>: it is the index
  of the 16-bit sample it points at.
\<close>

record resampler_buffer =
  raw :: "size_t option"
  frame_count :: size_t

text \<open>Two bytes make one sample, low byte first.\<close>

fun le16 :: "8 word list \<Rightarrow> 16 word list" where
  "le16 (lo # hi # bs) = (ucast lo OR push_bit 8 (ucast hi)) # le16 bs"
| "le16 bs = []"

text \<open>A read stores what it got at the start of the memory it was given.\<close>

definition store :: "'a list \<Rightarrow> 'a list \<Rightarrow> 'a list" where
  "store new old = take (length old) (new @ drop (length new) old)"

text \<open>
  The loop of lines 1201 to 1203, \<^verbatim>\<open>rsp->buffer[i] = rsp->buffer[i * 2]\<close> for the
  indices given; \<^verbatim>\<open>i * 2\<close> is an \<^verbatim>\<open>unsigned int\<close>. An index outside the array is
  the fault \<open>OutOfBounds\<close>.
\<close>

primrec discard_right :: "nat list \<Rightarrow> 16 word list \<Rightarrow> fault + 16 word list" where
  "discard_right [] xs = Inr xs"
| "discard_right (i # is) xs =
     (let j = unat (2 * (of_nat i :: 32 word))
      in if i < length xs \<and> j < length xs
         then discard_right is (xs[i := xs ! j])
         else Inl OutOfBounds)"

text \<open>
  \<open>get_next_buffer\<close>. The two arguments are pointers: \<open>None\<close> is \<^verbatim>\<open>NULL\<close>. The
  stream is the one that the source finds around \<^verbatim>\<open>buffer_provider\<close> with
  \<^verbatim>\<open>offsetof\<close>.
\<close>

definition get_next_buffer ::
  "ext \<Rightarrow> stream_in_pcm option \<Rightarrow> resampler_buffer option \<Rightarrow> world \<Rightarrow>
     fault + (int \<times> resampler_buffer option \<times> stream_in_pcm option \<times> world)" where
  "get_next_buffer x buffer_provider buf w =
     (case (buffer_provider, buf) of
        (Some i, Some b) \<Rightarrow>
          (if pcm i = None then
             Inr (- ENODEV, Some (b\<lparr>raw := None, frame_count := 0\<rparr>),
                  Some (i\<lparr>rsp := (rsp i)\<lparr>read_status := - ENODEV\<rparr>\<rparr>), w)
           else if frames_in (rsp i) = 0 then
             (let (st, bytes) = pcm_read x (trace w) (pcm i) (in_buffer_size (rsp i));
                  w1 = emit [PcmRead (pcm i) (in_buffer_size (rsp i))] w;
                  r1 = (rsp i)\<lparr>buffer := map_option (store (le16 bytes)) (buffer (rsp i)),
                                read_status := st\<rparr>
              in if st \<noteq> 0 then
                   Inr (st, Some (b\<lparr>raw := None, frame_count := 0\<rparr>), Some (i\<lparr>rsp := r1\<rparr>), w1)
                 else
                   (let r2 = r1\<lparr>frames_in := in_buffer_frames r1\<rparr>;
                        filled =
                          (if channel_count i = 1 \<and> hw_channel_count i = 2 then
                             (if unat (frames_in r2) \<le> 1 then Inr r2
                              else case buffer r2 of
                                     None \<Rightarrow> Inl NullDeref
                                   | Some xs \<Rightarrow>
                                       (case discard_right [1..<unat (frames_in r2)] xs of
                                          Inl f \<Rightarrow> Inl f
                                        | Inr ys \<Rightarrow> Inr (r2\<lparr>buffer := Some ys\<rparr>)))
                           else Inr r2)
                    in case filled of
                         Inl f \<Rightarrow> Inl f
                       | Inr r3 \<Rightarrow>
                           Inr (read_status r3,
                                Some (b\<lparr>raw := Some (in_buffer_frames r3 - frames_in r3),
                                        frame_count := (if frames_in r3 < frame_count b
                                                        then frames_in r3
                                                        else frame_count b)\<rparr>),
                                Some (i\<lparr>rsp := r3\<rparr>), w1)))
           else
             Inr (read_status (rsp i),
                  Some (b\<lparr>raw := Some (in_buffer_frames (rsp i) - frames_in (rsp i)),
                          frame_count := (if frames_in (rsp i) < frame_count b
                                          then frames_in (rsp i)
                                          else frame_count b)\<rparr>),
                  Some i, w))
      | _ \<Rightarrow> Inr (- EINVAL, buf, buffer_provider, w))"

definition release_buffer ::
  "stream_in_pcm option \<Rightarrow> resampler_buffer option \<Rightarrow> stream_in_pcm option" where
  "release_buffer buffer_provider buf =
     (case (buffer_provider, buf) of
        (Some i, Some b) \<Rightarrow>
          Some (i\<lparr>rsp := (rsp i)\<lparr>frames_in := frames_in (rsp i) - frame_count b\<rparr>\<rparr>)
      | _ \<Rightarrow> buffer_provider)"

text \<open>
  The pull contract as a converter uses it: ask for \<open>m\<close> frames with
  \<open>get_next_buffer\<close>; when the provider answers 0, consume \<open>c\<close> of the frames it
  offered, or all of them when it offered fewer; store what was consumed in
  \<^verbatim>\<open>frame_count\<close> and call \<open>release_buffer\<close>. \<open>pull_cycles\<close> runs a list of such
  requests and stops at the first pull that does not answer 0.
\<close>

fun pull_cycles ::
  "ext \<Rightarrow> (size_t \<times> size_t) list \<Rightarrow> stream_in_pcm \<Rightarrow> world \<Rightarrow>
     fault + (stream_in_pcm \<times> world)" where
  "pull_cycles x [] i w = Inr (i, w)"
| "pull_cycles x ((m, c) # rest) i w =
     (case get_next_buffer x (Some i) (Some \<lparr>raw = None, frame_count = m\<rparr>) w of
        Inr (ret, Some b, Some i1, w1) \<Rightarrow>
          (if ret \<noteq> 0 then Inr (i1, w1)
           else (case release_buffer (Some i1)
                        (Some (b\<lparr>frame_count := (if frame_count b < c then frame_count b else c)\<rparr>)) of
                   Some i2 \<Rightarrow> pull_cycles x rest i2 w1
                 | None \<Rightarrow> Inr (i1, w1)))
      | Inr (ret, _, _, w1) \<Rightarrow> Inr (i, w1)
      | Inl f \<Rightarrow> Inl f)"

text \<open>
  The state in which the bridge can serve pulls: the transport is open, the period
  length \<^verbatim>\<open>in_buffer_frames\<close> is a non-negative \<^verbatim>\<open>int\<close>, no more frames are
  buffered than a period holds, no error is latched, every hardware read of one
  period succeeds, and, when the right channel is to be discarded, the sample array
  holds two samples for each frame. \<open>after_pull\<close> is the number of frames buffered
  once a pull has refilled an empty buffer.
\<close>

definition bridge_ready :: "ext \<Rightarrow> addr \<Rightarrow> stream_in_pcm \<Rightarrow> bool" where
  "bridge_ready x p i =
     (pcm i = Some p
      \<and> 0 \<le> sint (in_buffer_frames (rsp i))
      \<and> frames_in (rsp i) \<le> in_buffer_frames (rsp i)
      \<and> read_status (rsp i) = 0
      \<and> (\<forall>tr. fst (pcm_read x tr (Some p) (in_buffer_size (rsp i))) = 0)
      \<and> (channel_count i = 1 \<and> hw_channel_count i = 2 \<longrightarrow>
           (\<exists>xs. buffer (rsp i) = Some xs
                 \<and> 2 * unat (in_buffer_frames (rsp i)) \<le> length xs)))"

definition after_pull :: "stream_in_pcm \<Rightarrow> size_t" where
  "after_pull i =
     (if frames_in (rsp i) = 0 then in_buffer_frames (rsp i) else frames_in (rsp i))"


section \<open>Input streams: reading\<close>

definition do_in_set_read_timestamp :: "ext \<Rightarrow> stream_in_pcm \<Rightarrow> world \<Rightarrow> stream_in_pcm" where
  "do_in_set_read_timestamp x i w =
     (let ns = systemTime x (trace w)
      in i\<lparr>last_read_ns := (if ns = 0 then 1 else ns)\<rparr>)"

text \<open>
  \<open>do_in_realtime_delay\<close>. \<^verbatim>\<open>required_interval\<close> is a \<^verbatim>\<open>size_t\<close>: the product
  \<^verbatim>\<open>1907 * bytes\<close> and the divisor \<^verbatim>\<open>frame_size * sample_rate\<close> are 32-bit
  products. The comparison with \<^verbatim>\<open>elapsed_ns >> 19\<close> is made in \<^verbatim>\<open>int64_t\<close>, the
  shift is arithmetic, and \<^verbatim>\<open>tv_nsec\<close> is a 32-bit \<^verbatim>\<open>long\<close>.
\<close>

definition do_in_realtime_delay ::
  "ext \<Rightarrow> stream_in_pcm \<Rightarrow> size_t \<Rightarrow> world \<Rightarrow> fault + world" where
  "do_in_realtime_delay x i bytes w =
     (if last_read_ns i \<noteq> 0 then
        (if frame_size i * sample_rate i = 0 then Inl DivByZero
         else
           (let required_interval = (1907 * bytes) div (frame_size i * sample_rate i);
                required_ns = push_bit 19 (ucast required_interval :: 64 word);
                elapsed_ns = systemTime x (trace w) - last_read_ns i
            in if sint (signed_drop_bit 19 elapsed_ns) < uint required_interval
               then Inr (emit [Nanosleep 0 (sint (ucast (required_ns - elapsed_ns) :: 32 word))] w)
               else Inr w))
      else Inr w)"

text \<open>\<^verbatim>\<open>memset(buffer, 0, bytes)\<close> on the caller's buffer.\<close>

definition memset0 :: "8 word list \<Rightarrow> size_t \<Rightarrow> 8 word list" where
  "memset0 buf bytes = replicate (unat bytes) 0 @ drop (unat bytes) buf"

text \<open>The value of an \<^verbatim>\<open>int\<close> that is assigned a wider integer.\<close>

definition to_int32 :: "int \<Rightarrow> int" where
  "to_int32 k = sint (word_of_int k :: 32 word)"

subsection \<open>Reading through the resampler\<close>

text \<open>
  The loop of \<open>read_resampled_frames\<close>. \<^verbatim>\<open>frames\<close> and \<^verbatim>\<open>frames_wr\<close> are
  \<^verbatim>\<open>ssize_t\<close>: words compared as signed numbers. The loop runs as long as the
  converter neither fills the request nor latches an error, so the function is
  partial: \<open>None\<close> is a call that never returns.
\<close>

partial_function (option) read_resampled_loop ::
  "ext \<Rightarrow> size_t \<Rightarrow> size_t \<Rightarrow> stream_in_pcm \<Rightarrow> 8 word list \<Rightarrow> world \<Rightarrow>
     (fault + (int \<times> 8 word list \<times> stream_in_pcm \<times> world)) option" where
  "read_resampled_loop x frames frames_wr i buf w =
     (if sint frames_wr < sint frames then
        (case resample_from_provider x i w buf (unat (frames_wr * frame_size i))
                (frames - frames_wr) of
           Inl f \<Rightarrow> Some (Inl f)
         | Inr (frames_rd, i1, w1, buf1) \<Rightarrow>
             (if read_status (rsp i1) \<noteq> 0
              then Some (Inr (read_status (rsp i1), buf1, i1, w1))
              else read_resampled_loop x frames (frames_wr + frames_rd) i1 buf1 w1))
      else Some (Inr (sint frames_wr, buf, i, w)))"

definition read_resampled_frames ::
  "ext \<Rightarrow> stream_in_pcm \<Rightarrow> 8 word list \<Rightarrow> size_t \<Rightarrow> world \<Rightarrow>
     (fault + (int \<times> 8 word list \<times> stream_in_pcm \<times> world)) option" where
  "read_resampled_frames x i buf frames w = read_resampled_loop x frames 0 i buf w"

definition in_resampler_init ::
  "ext \<Rightarrow> stream_in_pcm \<Rightarrow> uint32 \<Rightarrow> uint32 \<Rightarrow> size_t \<Rightarrow> world \<Rightarrow>
     fault + (int \<times> stream_in_pcm \<times> world)" where
  "in_resampler_init x i hw_rate channels hw_fragment w =
     (if channels * frame_size i = 0 then Inl DivByZero
      else
        (let size = hw_fragment * channels * frame_size i;
             ok = malloc_ok x (trace w) size;
             w1 = emit [Malloc size] w;
             r1 = (rsp i)\<lparr>in_buffer_size := size,
                           in_buffer_frames := size div (channels * frame_size i),
                           buffer := (if ok then Some (replicate (unat size div 2) 0)
                                      else None)\<rparr>
         in if \<not> ok then Inr (- ENOMEM, i\<lparr>rsp := r1\<rparr>, w1)
            else
              (let (ret, r) = create_resampler x (trace w1) hw_rate (sample_rate i)
                                (channel_count i);
                   w2 = emit [CreateResampler hw_rate (sample_rate i) (channel_count i)] w1;
                   r2 = r1\<lparr>resampler := r\<rparr>
               in if ret < 0 then Inr (ret, i\<lparr>rsp := r2\<lparr>buffer := None\<rparr>\<rparr>, w2)
                  else Inr (ret, i\<lparr>rsp := r2\<rparr>, w2))))"

subsection \<open>PCM input stream via compressed channel\<close>

text \<open>
  \<open>do_open_compress_pcm_in\<close>. The codec description and the fragment sizes given
  to \<^verbatim>\<open>compress_open\<close> are constants and not part of the trace. On failure the
  function returns \<^verbatim>\<open>errno\<close> as it is, a number that is not negative.
\<close>

definition do_open_compress_pcm_in ::
  "ext \<Rightarrow> stream_in_pcm \<Rightarrow> world \<Rightarrow> int \<times> stream_in_pcm \<times> world" where
  "do_open_compress_pcm_in x i w =
     (case hw i of
        None \<Rightarrow> (- EINVAL, i, w)
      | Some h \<Rightarrow>
          (let c = compress_open x (trace w) (card_number h) (device_number h);
               w1 = emit [CompressOpen (card_number h) (device_number h)] w;
               ready = (case c of None \<Rightarrow> False | Some a \<Rightarrow> is_compress_ready x (trace w1) a)
           in if \<not> ready
              then (errno x (trace w1), i, emit [CompressClose c] w1)
              else (0, i\<lparr>pcm := c, buffer_size := 4096 * 1 * frame_size i\<rparr>,
                    emit [CompressStart c] w1)))"

definition start_compress_pcm_input_stream ::
  "ext \<Rightarrow> stream_in_pcm \<Rightarrow> world \<Rightarrow> fault + (int \<times> stream_in_pcm \<times> world)" where
  "start_compress_pcm_input_stream x i w =
     (if standby i then
        (let (ret, i1, w1) = do_open_compress_pcm_in x i w
         in if ret < 0 then Inr (ret, i1, w1)
            else if frame_size i1 * sample_rate i1 = 0 then Inl DivByZero
            else
              (let ms = to_int32 ((1000 * uint (buffer_size i1))
                                    div uint (frame_size i1 * sample_rate i1))
               in Inr (0, i1\<lparr>standby := False\<rparr>,
                       emit [CompressSetMaxPollWait (pcm i1) (to_int32 (ms * 2))] w1)))
      else Inr (0, i, w))"

definition do_in_compress_pcm_read ::
  "ext \<Rightarrow> stream_in_pcm \<Rightarrow> 8 word list \<Rightarrow> size_t \<Rightarrow> world \<Rightarrow>
     fault + (int \<times> 8 word list \<times> stream_in_pcm \<times> world)" where
  "do_in_compress_pcm_read x i buf bytes w =
     (case start_compress_pcm_input_stream x i w of
        Inl f \<Rightarrow> Inl f
      | Inr (ret0, i1, w1) \<Rightarrow>
          (if ret0 < 0 then Inr (ret0, buf, i1, w1)
           else
             (let (ret, got) = compress_read x (trace w1) (pcm i1) bytes;
                  w2 = emit [CompressRead (pcm i1) bytes] w1;
                  buf1 = store got buf
              in if 0 < ret then
                   (case do_in_realtime_delay x i1 (bytes div 4) w2 of
                      Inl f \<Rightarrow> Inl f
                    | Inr w3 \<Rightarrow> Inr (ret, buf1, i1, w3))
                 else Inr (ret, buf1, i1, w2))))"

subsection \<open>PCM input stream\<close>

definition IN_PERIOD_SIZE_DEFAULT :: uint32 where "IN_PERIOD_SIZE_DEFAULT = 256"
definition IN_PERIOD_COUNT_DEFAULT :: uint32 where "IN_PERIOD_COUNT_DEFAULT = 4"
definition IN_CHANNEL_COUNT_DEFAULT :: uint32 where "IN_CHANNEL_COUNT_DEFAULT = 1"
definition IN_SAMPLE_RATE_DEFAULT :: uint32 where "IN_SAMPLE_RATE_DEFAULT = 48000"

text \<open>
  The four \<^verbatim>\<open>in_pcm_cfg_\<close> functions read \<^verbatim>\<open>in->common.hw\<close>, which their one
  caller has tested: they are given the route itself.
\<close>

definition in_pcm_cfg_period_count :: "hw_stream \<Rightarrow> uint32" where
  "in_pcm_cfg_period_count h =
     (if period_count h \<noteq> 0 then period_count h else IN_PERIOD_COUNT_DEFAULT)"

definition in_pcm_cfg_period_size :: "hw_stream \<Rightarrow> uint32" where
  "in_pcm_cfg_period_size h =
     (if period_size h \<noteq> 0 then period_size h else IN_PERIOD_SIZE_DEFAULT)"

definition in_pcm_cfg_rate :: "hw_stream \<Rightarrow> uint32" where
  "in_pcm_cfg_rate h = (if rate h \<noteq> 0 then rate h else IN_SAMPLE_RATE_DEFAULT)"

definition in_pcm_cfg_channel_count :: "stream_in_pcm \<Rightarrow> uint32" where
  "in_pcm_cfg_channel_count i =
     (if channel_count i \<noteq> 0 then channel_count i else IN_CHANNEL_COUNT_DEFAULT)"

definition in_get_sample_rate :: "stream_in_pcm \<Rightarrow> fault + uint32" where
  "in_get_sample_rate i =
     (if sample_rate i \<noteq> 0 then Inr (sample_rate i)
      else case hw i of None \<Rightarrow> Inl NullDeref | Some h \<Rightarrow> Inr (rate h))"

definition in_pcm_fill_params :: "stream_in_pcm \<Rightarrow> pcm_config \<Rightarrow> fault + stream_in_pcm" where
  "in_pcm_fill_params i config =
     (if pc_rate config = 0 then Inl DivByZero
      else
        (let size = (pc_period_size config * sample_rate i) div pc_rate config;
             size16 = ((size + 15) div 16) * 16
         in Inr (i\<lparr>hw_sample_rate := pc_rate config,
                    hw_channel_count := pc_channels config,
                    hw_period_size := pc_period_size config,
                    hw_period_count := pc_period_count config,
                    buffer_size := size16 * frame_size i\<rparr>)))"

definition do_open_pcm_input ::
  "ext \<Rightarrow> stream_in_pcm \<Rightarrow> world \<Rightarrow> fault + (int \<times> stream_in_pcm \<times> world)" where
  "do_open_pcm_input x i w =
     (case hw i of
        None \<Rightarrow> Inr (- EINVAL, i, w)
      | Some h \<Rightarrow>
          (let config = \<lparr>pc_channels = in_pcm_cfg_channel_count i,
                          pc_rate = in_pcm_cfg_rate h,
                          pc_period_size = in_pcm_cfg_period_size h,
                          pc_period_count = in_pcm_cfg_period_count h,
                          pc_format = pcm_format_from_audio_format x (format i),
                          pc_start_threshold = 0,
                          pc_stop_threshold = 0,
                          pc_silence_threshold = 0\<rparr>
           in if disable_audio (dev w) then
                (case in_pcm_fill_params i config of
                   Inl f \<Rightarrow> Inl f
                 | Inr i2 \<Rightarrow> Inr (0, i2, w))
              else
                (let p = pcm_open x (trace w) (card_number h) (device_number h) PCM_IN config;
                     w1 = emit [PcmOpen (card_number h) (device_number h) PCM_IN config] w;
                     ready = (case p of None \<Rightarrow> False | Some a \<Rightarrow> pcm_is_ready x (trace w1) a)
                 in if \<not> ready
                    then Inr (- ENOMEM, i\<lparr>pcm := None\<rparr>, emit [PcmClose p] w1)
                    else
                      (case in_pcm_fill_params (i\<lparr>pcm := p\<rparr>) config of
                         Inl f \<Rightarrow> Inl f
                       | Inr i2 \<Rightarrow>
                           (case in_get_sample_rate i2 of
                              Inl f \<Rightarrow> Inl f
                            | Inr r \<Rightarrow>
                                (if r \<noteq> pc_rate config then
                                   (case in_resampler_init x i2 (pc_rate config)
                                           (pc_channels config)
                                           (pcm_frames_to_bytes x (pcm i2)
                                              (pc_period_size config)) w1 of
                                      Inl f \<Rightarrow> Inl f
                                    | Inr (ret, i3, w3) \<Rightarrow>
                                        (if ret < 0
                                         then Inr (ret, i3\<lparr>pcm := None\<rparr>,
                                                   emit [PcmClose (pcm i3)] w3)
                                         else Inr (0, i3, w3)))
                                 else Inr (0, i2, w1)))))))"

definition start_pcm_input_stream ::
  "ext \<Rightarrow> stream_in_pcm \<Rightarrow> world \<Rightarrow> fault + (int \<times> stream_in_pcm \<times> world)" where
  "start_pcm_input_stream x i w =
     (if standby i then
        (case do_open_pcm_input x i w of
           Inl f \<Rightarrow> Inl f
         | Inr (ret, i1, w1) \<Rightarrow>
             Inr (ret, (if ret = 0 then i1\<lparr>standby := False\<rparr> else i1), w1))
      else Inr (0, i, w))"

definition do_in_pcm_read ::
  "ext \<Rightarrow> stream_in_pcm \<Rightarrow> 8 word list \<Rightarrow> size_t \<Rightarrow> world \<Rightarrow>
     (fault + (int \<times> 8 word list \<times> stream_in_pcm \<times> world)) option" where
  "do_in_pcm_read x i buf bytes w =
     (if frame_size i = 0 then Some (Inl DivByZero)
      else
        (let frames_rq = bytes div frame_size i
         in case start_pcm_input_stream x i w of
              Inl f \<Rightarrow> Some (Inl f)
            | Inr (ret0, i1, w1) \<Rightarrow>
                (if ret0 < 0 then Some (Inr (ret0, buf, i1, w1))
                 else if \<not> disable_audio (dev w1) then
                   (let res =
                          (if resampler (rsp i1) \<noteq> None
                           then read_resampled_frames x i1 buf frames_rq w1
                           else (let (r, got) = pcm_read x (trace w1) (pcm i1) bytes
                                 in Some (Inr (r, store got buf, i1,
                                               emit [PcmRead (pcm i1) bytes] w1))))
                    in case res of
                         None \<Rightarrow> None
                       | Some (Inl f) \<Rightarrow> Some (Inl f)
                       | Some (Inr (ret, buf2, i2, w2)) \<Rightarrow>
                           Some (Inr ((if 0 \<le> ret then sint bytes else ret), buf2, i2, w2)))
                 else if sample_rate i1 = 0 then Some (Inl DivByZero)
                 else if frame_size i1 div sample_rate i1 = 0 then Some (Inl DivByZero)
                 else
                   (let sleep_time = (uint bytes * 1000000)
                                       div uint (frame_size i1 div sample_rate i1)
                    in Some (Inr (ret0, memset0 buf bytes, i1,
                                  emit [Usleep (word_of_int sleep_time)] w1))))))"

text \<open>
  \<open>in_pcm_read\<close> in two parts. \<open>in_pcm_read_path\<close> is lines 1777 to 1789: the
  choice of the read path and its return value \<^verbatim>\<open>ret\<close>. \<open>in_pcm_read\<close> goes on
  with lines 1796 to 1809: silence, delay, byte count and timestamp.
\<close>

definition in_pcm_read_path ::
  "ext \<Rightarrow> stream_in_pcm \<Rightarrow> 8 word list \<Rightarrow> size_t \<Rightarrow> world \<Rightarrow>
     (fault + (int \<times> 8 word list \<times> stream_in_pcm \<times> world)) option" where
  "in_pcm_read_path x i buf bytes w =
     (case hw i of
        None \<Rightarrow> Some (Inr (- EINVAL, buf, i, w))
      | Some h \<Rightarrow>
          (if get_current_routes x (trace w) (Some h) = 0
           then Some (Inr (- EINVAL, buf, i, w))
           else if stream_is_compressed_in x (trace w) h
           then Some (do_in_compress_pcm_read x i buf bytes w)
           else do_in_pcm_read x i buf bytes w))"

definition in_pcm_read ::
  "ext \<Rightarrow> stream_in_pcm \<Rightarrow> 8 word list \<Rightarrow> size_t \<Rightarrow> world \<Rightarrow>
     (fault + (int \<times> 8 word list \<times> stream_in_pcm \<times> world)) option" where
  "in_pcm_read x i buf bytes w =
     (case in_pcm_read_path x i buf bytes w of
        None \<Rightarrow> None
      | Some (Inl f) \<Rightarrow> Some (Inl f)
      | Some (Inr (ret, buf1, i1, w1)) \<Rightarrow>
          (if ret \<le> 0 \<or> mic_mute (dev w1) then
             (if ret \<le> 0 then
                (case do_in_realtime_delay x i1 bytes w1 of
                   Inl f \<Rightarrow> Some (Inl f)
                 | Inr w2 \<Rightarrow>
                     Some (Inr (sint bytes, memset0 buf1 bytes,
                                do_in_set_read_timestamp x i1 w2, w2)))
              else Some (Inr (sint bytes, memset0 buf1 bytes,
                              do_in_set_read_timestamp x i1 w1, w1)))
           else Some (Inr (ret, buf1, do_in_set_read_timestamp x i1 w1, w1))))"

section \<open>The real-time delay in words of time\<close>

text \<open>
  \<open>required_interval i n\<close> is the value of the variable \<^verbatim>\<open>required_interval\<close> of
  \<open>do_in_realtime_delay\<close> for \<open>n\<close> bytes: the time that \<open>n\<close> bytes take at the
  frame size and sample rate of the stream, in units of \<open>2 ^ 19\<close> nanoseconds.
  \<open>realtime_sleep x i n tr\<close> is the list of sleeps that a delay for \<open>n\<close> bytes
  asks for when the history is \<open>tr\<close>: none when the stream has no read timestamp
  or when the time since the last read already covers the interval, else one
  \<^verbatim>\<open>nanosleep\<close> for the interval less the time since the last read.
\<close>

definition required_interval :: "stream_in_pcm \<Rightarrow> size_t \<Rightarrow> size_t" where
  "required_interval i n = (1907 * n) div (frame_size i * sample_rate i)"

definition realtime_sleep :: "ext \<Rightarrow> stream_in_pcm \<Rightarrow> size_t \<Rightarrow> call list \<Rightarrow> call list" where
  "realtime_sleep x i n tr =
     (let elapsed_ns = systemTime x tr - last_read_ns i
      in if last_read_ns i \<noteq> 0
            \<and> sint (signed_drop_bit 19 elapsed_ns) < uint (required_interval i n)
         then [Nanosleep 0
                 (sint (ucast (push_bit 19 (ucast (required_interval i n) :: 64 word)
                                 - elapsed_ns) :: 32 word))]
         else [])"

section \<open>Output streams\<close>

text \<open>
  \<^verbatim>\<open>struct stream_out_pcm\<close> with the members of \<^verbatim>\<open>struct stream_out_common\<close>
  written in place. The members that the input stream has too carry the prefix
  \<open>out_\<close>. \<^verbatim>\<open>hw\<close> is never \<^verbatim>\<open>NULL\<close>: \<open>adev_open_output_stream\<close> fails
  before the stream exists when no route is found.
\<close>

record stream_out_pcm =
  out_hw :: hw_stream
  out_standby :: bool
  out_format :: uint32
  out_channel_mask :: uint32
  out_channel_count :: uint32
  out_sample_rate :: uint32
  out_frame_size :: size_t
  out_buffer_size :: uint32
  latency :: uint32
  out_pcm :: "addr option"
  out_hw_sample_rate :: uint32
  out_hw_channel_count :: uint32
  out_hw_period_size :: uint32
  out_hw_period_count :: uint32
  hw_frames_written :: uint64
  hw_frames_rendered :: uint64

definition OUT_PERIOD_SIZE_DEFAULT :: uint32 where "OUT_PERIOD_SIZE_DEFAULT = 256"
definition OUT_PERIOD_COUNT_DEFAULT :: uint32 where "OUT_PERIOD_COUNT_DEFAULT = 4"
definition OUT_CHANNEL_COUNT_DEFAULT :: uint32 where "OUT_CHANNEL_COUNT_DEFAULT = 2"
definition OUT_SAMPLE_RATE_DEFAULT :: uint32 where "OUT_SAMPLE_RATE_DEFAULT = 48000"
definition PCM_FORMAT_S16_LE :: uint32 where "PCM_FORMAT_S16_LE = 0"

definition out_pcm_cfg_period_count :: "stream_out_pcm \<Rightarrow> uint32" where
  "out_pcm_cfg_period_count out =
     (if period_count (out_hw out) \<noteq> 0 then period_count (out_hw out)
      else OUT_PERIOD_COUNT_DEFAULT)"

definition out_pcm_cfg_period_size :: "stream_out_pcm \<Rightarrow> uint32" where
  "out_pcm_cfg_period_size out =
     (if period_size (out_hw out) \<noteq> 0 then period_size (out_hw out)
      else OUT_PERIOD_SIZE_DEFAULT)"

definition out_pcm_cfg_rate :: "stream_out_pcm \<Rightarrow> uint32" where
  "out_pcm_cfg_rate out =
     (if rate (out_hw out) \<noteq> 0 then rate (out_hw out)
      else if out_sample_rate out \<noteq> 0 then out_sample_rate out
      else OUT_SAMPLE_RATE_DEFAULT)"

definition out_pcm_cfg_channel_count :: "stream_out_pcm \<Rightarrow> uint32" where
  "out_pcm_cfg_channel_count out =
     (if out_channel_count out \<noteq> 0 then out_channel_count out
      else OUT_CHANNEL_COUNT_DEFAULT)"

definition do_out_pcm_standby :: "stream_out_pcm \<Rightarrow> world \<Rightarrow> stream_out_pcm \<times> world" where
  "do_out_pcm_standby out w =
     (if \<not> out_standby out \<and> out_pcm out \<noteq> None
      then (out\<lparr>out_standby := True, out_pcm := None\<rparr>, emit [PcmClose (out_pcm out)] w)
      else (out, w))"

definition out_pcm_fill_params ::
  "ext \<Rightarrow> stream_out_pcm \<Rightarrow> pcm_config \<Rightarrow> fault + stream_out_pcm" where
  "out_pcm_fill_params x out config =
     (if pc_rate config = 0 then Inl DivByZero
      else Inr (out\<lparr>out_hw_sample_rate := pc_rate config,
                    out_hw_channel_count := pc_channels config,
                    out_hw_period_size := pc_period_size config,
                    out_hw_period_count := pc_period_count config,
                    out_buffer_size := pcm_frames_to_bytes x (out_pcm out) (pc_period_size config),
                    latency := (pc_period_size config * pc_period_count config * 1000)
                                 div pc_rate config\<rparr>))"

text \<open>
  \<open>start_output_pcm\<close>, compiled without \<^verbatim>\<open>TEST_32BITS\<close> (its definition is
  commented out in the source).
\<close>

definition start_output_pcm ::
  "ext \<Rightarrow> stream_out_pcm \<Rightarrow> world \<Rightarrow> fault + (int \<times> stream_out_pcm \<times> world)" where
  "start_output_pcm x out w =
     (let config = \<lparr>pc_channels = out_pcm_cfg_channel_count out,
                     pc_rate = out_pcm_cfg_rate out,
                     pc_period_size = out_pcm_cfg_period_size out,
                     pc_period_count = out_pcm_cfg_period_count out,
                     pc_format = PCM_FORMAT_S16_LE,
                     pc_start_threshold = 0,
                     pc_stop_threshold = 0,
                     pc_silence_threshold = 0\<rparr>;
          card = card_number (out_hw out);
          device = device_number (out_hw out);
          opened = (if \<not> disable_audio (dev w)
                    then Some (out\<lparr>out_pcm := pcm_open x (trace w) card device
                                                  PCM_OUT_MONOTONIC config\<rparr>,
                               emit [PcmOpen card device PCM_OUT_MONOTONIC config] w)
                    else None)
      in case opened of
           None \<Rightarrow>
             (case out_pcm_fill_params x out config of
                Inl f \<Rightarrow> Inl f
              | Inr out2 \<Rightarrow> Inr (0, out2, w))
         | Some (out1, w1) \<Rightarrow>
             (case out_pcm out1 of
                None \<Rightarrow>
                  (case out_pcm_fill_params x out1 config of
                     Inl f \<Rightarrow> Inl f
                   | Inr out2 \<Rightarrow> Inr (0, out2, w1))
              | Some p \<Rightarrow>
                  (if \<not> pcm_is_ready x (trace w1) p
                   then Inr (- ENOMEM, out1, emit [PcmClose (Some p)] w1)
                   else (case out_pcm_fill_params x out1 config of
                           Inl f \<Rightarrow> Inl f
                         | Inr out2 \<Rightarrow> Inr (0, out2, w1)))))"

definition out_pcm_standby :: "stream_out_pcm \<Rightarrow> world \<Rightarrow> int \<times> stream_out_pcm \<times> world" where
  "out_pcm_standby out w = (let (out1, w1) = do_out_pcm_standby out w in (0, out1, w1))"

text \<open>
  The body of \<open>out_pcm_write\<close> after the stream was started (lines 833 to 851): the
  write itself and the frame counters. The bytes written are not part of the model.
\<close>

definition out_pcm_write_frames ::
  "ext \<Rightarrow> stream_out_pcm \<Rightarrow> size_t \<Rightarrow> world \<Rightarrow> fault + (int \<times> stream_out_pcm \<times> world)" where
  "out_pcm_write_frames x out bytes w =
     (if \<not> disable_audio (dev w) then
        (let ret = pcm_write x (trace w) (out_pcm out) bytes;
             w1 = emit [PcmWrite (out_pcm out) bytes] w
         in if 0 \<le> ret then
              (if out_frame_size out = 0 then Inl DivByZero
               else Inr (sint bytes,
                         out\<lparr>hw_frames_written :=
                                 hw_frames_written out + ucast (bytes div out_frame_size out),
                              hw_frames_rendered :=
                                 hw_frames_rendered out + ucast (bytes div out_frame_size out)\<rparr>,
                         w1))
            else Inr (ret, out, w1))
      else
        (if out_sample_rate out = 0 then Inl DivByZero
         else if out_frame_size out div out_sample_rate out = 0 then Inl DivByZero
         else
           (let sleep_time = (uint bytes * 1000000)
                               div uint (out_frame_size out div out_sample_rate out);
                w1 = emit [Usleep (word_of_int sleep_time)] w
            in Inr (sint bytes,
                    out\<lparr>hw_frames_written :=
                            hw_frames_written out + ucast (bytes div out_frame_size out),
                         hw_frames_rendered :=
                            hw_frames_rendered out + ucast (bytes div out_frame_size out)\<rparr>,
                    w1))))"

definition out_pcm_write ::
  "ext \<Rightarrow> stream_out_pcm \<Rightarrow> size_t \<Rightarrow> world \<Rightarrow> fault + (int \<times> stream_out_pcm \<times> world)" where
  "out_pcm_write x out bytes w =
     (if get_current_routes x (trace w) (Some (out_hw out)) = 0 then Inr (0, out, w)
      else if out_standby out then
        (case start_output_pcm x out w of
           Inl f \<Rightarrow> Inl f
         | Inr (ret, out1, w1) \<Rightarrow>
             (if ret \<noteq> 0 then Inr (ret, out1, w1)
              else out_pcm_write_frames x
                     (out1\<lparr>out_standby := False, hw_frames_rendered := 0\<rparr>) bytes w1))
      else out_pcm_write_frames x out bytes w)"

definition do_init_out_pcm :: "stream_out_pcm \<Rightarrow> stream_out_pcm" where
  "do_init_out_pcm out =
     out\<lparr>out_buffer_size := out_pcm_cfg_period_size out * out_frame_size out,
         hw_frames_rendered := 0,
         hw_frames_written := 0\<rparr>"

text \<open>
  \<open>out_get_presentation_position\<close>: the return code, \<^verbatim>\<open>*frames\<close> and
  \<^verbatim>\<open>*timestamp\<close>, each \<open>None\<close> when the function does not write it. The sum is
  computed in \<^verbatim>\<open>uint64_t\<close> and read as an \<^verbatim>\<open>int64_t\<close>.
\<close>

definition out_get_presentation_position ::
  "ext \<Rightarrow> stream_out_pcm \<Rightarrow> world \<Rightarrow> int \<times> uint64 option \<times> timespec option" where
  "out_get_presentation_position x out w =
     (case out_pcm out of
        Some p \<Rightarrow>
          (let (r, avail, ts) = pcm_get_htimestamp x (trace w) p in
           if r = 0 then
             (let kernel_buffer_size = out_hw_period_size out * out_hw_period_count out;
                  presented_frames = hw_frames_written out - ucast kernel_buffer_size
                                       + ucast avail
              in if 0 \<le> sint presented_frames
                 then (0, Some presented_frames, Some ts)
                 else (- EINVAL, None, Some ts))
           else (- EINVAL, None, Some ts))
      | None \<Rightarrow>
          (let kernel_buffer_size = out_hw_period_size out * out_hw_period_count out;
               presented_frames = hw_frames_written out - ucast kernel_buffer_size
           in if 0 \<le> sint presented_frames
              then (0, Some presented_frames, None)
              else (- EINVAL, None, None)))"

text \<open>
  The value of the formula \<open>framesWritten - hwPeriodSize * hwPeriodCount + avail\<close>
  over the integers.
\<close>

definition presented_value :: "stream_out_pcm \<Rightarrow> uint32 \<Rightarrow> int" where
  "presented_value out avail =
     uint (hw_frames_written out)
       - uint (out_hw_period_size out) * uint (out_hw_period_count out) + uint avail"

section \<open>Registration of the voice-control input\<close>

definition registered :: "world \<Rightarrow> addr \<Rightarrow> bool" where
  "registered w a = (active_voice_control (dev w) = Some a)"

section \<open>A concrete device, stream and environment\<close>

text \<open>
  A configuration with one PCM route, used to run the model on explicit inputs: every
  external call succeeds, \<open>atoi\<close> knows the string \<open>''6''\<close>, and no named stream is
  configured.
\<close>

definition hw0 :: hw_stream where
  "hw0 = \<lparr>hw_id = 1, rate = 48000, period_size = 256, period_count = 4,
          card_number = 0, device_number = 0\<rparr>"

definition dev0 :: audio_device where
  "dev0 = \<lparr>disable_audio = False, mic_mute = False, active_voice_control = None,
           voice_st = eVoiceNone, voice_trig_mic = 0, global_stream = None,
           voice_trig_stream = None\<rparr>"

definition world0 :: world where
  "world0 = \<lparr>dev = dev0, trace = []\<rparr>"

definition rsp0 :: in_resampler where
  "rsp0 = \<lparr>resampler = None, buffer = None, in_buffer_size = 0, in_buffer_frames = 0,
           frames_in = 0, read_status = 0\<rparr>"

definition in0 :: stream_in_pcm where
  "in0 = \<lparr>hw = None, standby = True, devices = 4, format = 1, channel_mask = 16,
          channel_count = 1, sample_rate = 16000, frame_size = 2, buffer_size = 1024,
          input_source = 0, last_read_ns = 0, pcm = None, hw_sample_rate = 0,
          hw_channel_count = 0, hw_period_size = 0, hw_period_count = 0, rsp = rsp0\<rparr>"

definition out0 :: stream_out_pcm where
  "out0 = do_init_out_pcm
     \<lparr>out_hw = hw0, out_standby = True, out_format = 1, out_channel_mask = 3,
      out_channel_count = 2, out_sample_rate = 48000, out_frame_size = 4,
      out_buffer_size = 0, latency = 0, out_pcm = None, out_hw_sample_rate = 0,
      out_hw_channel_count = 0, out_hw_period_size = 0, out_hw_period_count = 0,
      hw_frames_written = 0, hw_frames_rendered = 0\<rparr>"

definition ext0 :: ext where
  "ext0 = \<lparr>atoi = (\<lambda>s. if s = ''6'' then 6 else 0),
           systemTime = (\<lambda>_. 1000000000),
           errno = (\<lambda>_. 0),
           malloc_ok = (\<lambda>_ _. True),
           get_named_stream = (\<lambda>_ _. None),
           get_stream = (\<lambda>_ _ _ _. Some hw0),
           get_current_routes = (\<lambda>_ _. 4),
           stream_is_compressed_in = (\<lambda>_ _. False),
           stream_is_compressed = (\<lambda>_ _. False),
           pcm_open = (\<lambda>_ _ _ _ _. Some 7),
           pcm_is_ready = (\<lambda>_ _. True),
           pcm_frames_to_bytes = (\<lambda>_ n. 4 * n),
           pcm_format_from_audio_format = (\<lambda>_. 0),
           pcm_write = (\<lambda>_ _ _. 0),
           pcm_read = (\<lambda>_ _ n. (0, replicate (unat n) 1)),
           pcm_get_htimestamp = (\<lambda>_ _. (0, 128, \<lparr>tv_sec = 5, tv_nsec = 0\<rparr>)),
           compress_open = (\<lambda>_ _ _. Some 9),
           is_compress_ready = (\<lambda>_ _. True),
           compress_read = (\<lambda>_ _ n. (sint n, replicate (unat n) 1)),
           create_resampler = (\<lambda>_ _ _ _. (0, Some 11)),
           resample_from_provider = (\<lambda>i w b off n. Inr (n, i, w, b))\<rparr>"


text \<open>
  \<open>ext_unrouted\<close> is the same environment with no device routed. \<open>out_active\<close>
  and \<open>world_active\<close> are the output stream and the world after 8192 bytes were
  written to \<open>out0\<close> in \<open>world0\<close> (lemma \<open>write_8192\<close> below).
\<close>

definition ext_unrouted :: ext where
  "ext_unrouted = ext0\<lparr>get_current_routes := (\<lambda>_ _. 0)\<rparr>"

definition out_active :: stream_out_pcm where
  "out_active = out0\<lparr>out_standby := False, out_buffer_size := 1024, latency := 21,
                      out_pcm := Some 7, out_hw_sample_rate := 48000,
                      out_hw_channel_count := 2, out_hw_period_size := 256,
                      out_hw_period_count := 4, hw_frames_written := 2048,
                      hw_frames_rendered := 2048\<rparr>"

definition world_active :: world where
  "world_active = world0\<lparr>trace :=
      [PcmOpen 0 0 PCM_OUT_MONOTONIC
         \<lparr>pc_channels = 2, pc_rate = 48000, pc_period_size = 256, pc_period_count = 4,
          pc_format = 0, pc_start_threshold = 0, pc_stop_threshold = 0,
          pc_silence_threshold = 0\<rparr>,
       PcmWrite (Some 7) 8192]\<rparr>"

text \<open>
  \<open>in_stereo\<close> is a new two-channel input stream of 16-bit samples at 44.1 kHz on
  the route \<open>hw0\<close>, whose hardware runs at 48 kHz. \<open>in_stereo_open\<close> and
  \<open>world_stereo\<close> are the stream and the world after \<open>start_pcm_input_stream\<close>
  opened it (lemma \<open>stereo_open\<close> below): the resampler bridge is built, its buffer
  is 8192 bytes and \<^verbatim>\<open>in_buffer_frames\<close> is 1024. \<open>world_fake_muted\<close> is the
  device with audio disabled (the fake device of \<open>adev_open\<close>) and the microphone
  muted.
\<close>

definition in_stereo :: stream_in_pcm where
  "in_stereo = in0\<lparr>hw := Some hw0, channel_mask := 12, channel_count := 2,
                    sample_rate := 44100, frame_size := 4\<rparr>"

definition in_stereo_open :: stream_in_pcm where
  "in_stereo_open =
     in_stereo\<lparr>standby := False, buffer_size := 960, pcm := Some 7,
                 hw_sample_rate := 48000, hw_channel_count := 2,
                 hw_period_size := 256, hw_period_count := 4,
                 rsp := \<lparr>resampler = Some 11, buffer = Some (replicate 4096 0),
                         in_buffer_size = 8192, in_buffer_frames = 1024,
                         frames_in = 0, read_status = 0\<rparr>\<rparr>"

definition world_stereo :: world where
  "world_stereo = world0\<lparr>trace :=
      [PcmOpen 0 0 PCM_IN
         \<lparr>pc_channels = 2, pc_rate = 48000, pc_period_size = 256, pc_period_count = 4,
          pc_format = 0, pc_start_threshold = 0, pc_stop_threshold = 0,
          pc_silence_threshold = 0\<rparr>,
       Malloc 8192,
       CreateResampler 48000 44100 2]\<rparr>"

definition world_fake_muted :: world where
  "world_fake_muted = world0\<lparr>dev := dev0\<lparr>disable_audio := True, mic_mute := True\<rparr>\<rparr>"


definition in_active :: stream_in_pcm where
  "in_active = in0\<lparr>hw := Some hw0, standby := False, pcm := Some 7,
                    last_read_ns := 999000000\<rparr>"

definition ext_fail :: ext where
  "ext_fail = ext0\<lparr>pcm_read := (\<lambda>_ _ _. (- 5, []))\<rparr>"


definition world_fired :: world where
  "world_fired = world0\<lparr>dev := dev0\<lparr>voice_st := eVoiceRecogFired\<rparr>\<rparr>"

definition world_armed :: world where
  "world_armed =
     world0\<lparr>dev := dev0\<lparr>voice_st := eVoiceTriggerArmed, voice_trig_stream := Some hw0\<rparr>\<rparr>"

text \<open>
  \<open>world_audio\<close> is the world after the stream at address 1 took the
  voice-recognition source in \<open>world_fired\<close> (lemma \<open>first_registration\<close> below).
\<close>

definition world_audio :: world where
  "world_audio =
     \<lparr>dev = dev0\<lparr>active_voice_control := Some 1, voice_st := eVoiceRecogAudio\<rparr>,
      trace = [GetNamedStream ''voice recognition'',
               GetStream 4 0 \<lparr>ac_sample_rate = 16000, ac_channel_mask = 16, ac_format = 1\<rparr>]\<rparr>"

section \<open>Properties of the voice trigger state machine\<close>

lemma voice_st_set_voice_st: "voice_st (dev (set_voice_st s w)) = s"
  by (simp add: set_voice_st_def)

lemma voice_st_open_stream:
  "voice_st (dev (do_voice_trigger_open_stream x n w)) = voice_st (dev w)"
  by (simp add: do_voice_trigger_open_stream_def emit_def Let_def split: option.split)

lemma voice_st_close_stream:
  "voice_st (dev (do_voice_trigger_close_stream w)) = voice_st (dev w)"
  by (simp add: do_voice_trigger_close_stream_def emit_def split: option.split)

lemma vt_run_table: "voice_st (dev (vt_run x w e)) = spec_table (voice_st (dev w)) e"
proof (cases e)
  case Enable
  then show ?thesis
    by (cases "voice_st (dev w)")
       (simp_all add: voice_trigger_enable_def voice_st_set_voice_st)
next
  case Disable
  then show ?thesis
    by (cases "voice_st (dev w)")
       (simp_all add: voice_trigger_disable_def voice_st_set_voice_st)
next
  case TriggerFired
  then show ?thesis
    by (cases "voice_st (dev w)")
       (simp_all add: voice_trigger_triggered_def voice_st_set_voice_st)
next
  case AudioCaptureStarted
  then show ?thesis
    by (cases "voice_st (dev w)")
       (simp_all add: voice_trigger_audio_started_locked_def voice_st_set_voice_st)
next
  case AudioCaptureEnded
  then show ?thesis
    by (cases "voice_st (dev w)")
       (simp_all add: voice_trigger_audio_ended_locked_def voice_st_set_voice_st)
qed

text \<open>
  C1. For every sequence of the five events and every initial voice state, replaying
  the sequence through the voice-trigger functions of the source leaves the device's
  voice state equal to the fold of the transition table of section 4.5 over the
  sequence. This holds for every answer of the configuration manager and every other
  content of the device context.
\<close>

theorem voice_state_replay_is_table_fold:
  "voice_st (dev (vt_replay x w evs)) = foldl spec_table (voice_st (dev w)) evs"
  unfolding vt_replay_def
  by (induction evs arbitrary: w) (simp_all add: vt_run_table)


text \<open>
  C9. The claim: after \<open>do_voice_trigger_close_stream\<close> ran on a device whose
  \<open>voice_trig_stream\<close> is set, the reference is null. The source does not do that:
  from the armed trigger-only state with the route \<open>hw0\<close> open,
  \<open>voice_trigger_disable\<close> un-routes and releases \<open>hw0\<close> and the device still
  refers to it.
\<close>

theorem close_stream_keeps_released_handle:
  "voice_trig_stream (dev (do_voice_trigger_close_stream world_armed)) = Some hw0
   \<and> trace (do_voice_trigger_close_stream world_armed) = [ApplyRoute hw0 0, ReleaseStream hw0]
   \<and> voice_trig_stream (dev (voice_trigger_disable world_armed)) = Some hw0
   \<and> voice_st (dev (voice_trigger_disable world_armed)) = eVoiceTriggerIdle"
  by (simp add: voice_trigger_disable_def do_voice_trigger_close_stream_def emit_def
        set_voice_st_def world_armed_def world0_def dev0_def)

section \<open>Properties of the resampler bridge\<close>

lemma length_store: "length (store new old) = length old"
  by (simp add: store_def)

lemma discard_right_ok:
  assumes "\<forall>i \<in> set is. i < length xs \<and> unat (2 * (of_nat i :: 32 word)) < length xs"
  shows "\<exists>ys. discard_right is xs = Inr ys \<and> length ys = length xs"
  using assms
proof (induction "is" arbitrary: xs)
  case Nil
  then show ?case by simp
next
  case (Cons i "is")
  let ?xs = "xs[i := xs ! unat (2 * (of_nat i :: 32 word))]"
  have "\<forall>j \<in> set is. j < length ?xs \<and> unat (2 * (of_nat j :: 32 word)) < length ?xs"
    using Cons.prems by simp
  from Cons.IH [OF this] show ?case using Cons.prems by (simp add: Let_def)
qed

lemma unat_double:
  assumes "i < 2 ^ 31"
  shows "unat (2 * (of_nat i :: 32 word)) = 2 * i"
proof -
  have "2 * (of_nat i :: 32 word) = of_nat (2 * i)" by simp
  then have "unat (2 * (of_nat i :: 32 word)) = (2 * i) mod 2 ^ 32"
    by (simp only: unat_of_nat) simp
  then show ?thesis using assms by simp
qed

lemma uint_nonneg_int:
  fixes n :: "32 word"
  assumes "0 \<le> sint n"
  shows "uint n < 2 ^ 31"
proof (rule ccontr)
  assume "\<not> uint n < 2 ^ 31"
  then have lo: "0 \<le> uint n - 2147483648" by simp
  have hi: "uint n - 2147483648 < 4294967296" using uint_lt2p [of n] by simp
  have "uint n + 2147483648 = (uint n - 2147483648) + 4294967296" by simp
  then have "(uint n + 2147483648) mod 4294967296 = (uint n - 2147483648) mod 4294967296"
    by (simp only: mod_add_self2)
  also have "\<dots> = uint n - 2147483648"
    using lo hi by (rule mod_pos_pos_trivial)
  finally have m: "(uint n + 2147483648) mod 4294967296 = uint n - 2147483648" .
  have "sint n = (uint n + 2147483648) mod 4294967296 - 2147483648"
    using int_word_sint [of "uint n", where 'a = 32] by simp
  then have "sint n = uint n - 4294967296" using m by simp
  then have "sint n < 0" using uint_lt2p [of n] by simp
  then show False using assms by simp
qed

lemma unat_nonneg_int:
  fixes n :: "32 word"
  assumes "0 \<le> sint n"
  shows "unat n < 2 ^ 31"
proof -
  have "uint n < 2 ^ 31" using assms by (rule uint_nonneg_int)
  then have "int (unat n) < int (2 ^ 31)" by simp
  then show ?thesis by (simp only: of_nat_less_iff)
qed


lemma discard_right_range:
  assumes "n < 2 ^ 31" and "2 * n \<le> length xs"
  shows "\<exists>ys. discard_right [1..<n] xs = Inr ys \<and> length ys = length xs"
proof (rule discard_right_ok)
  show "\<forall>i \<in> set [1..<n]. i < length xs \<and> unat (2 * (of_nat i :: 32 word)) < length xs"
  proof
    fix i assume "i \<in> set [1..<n]"
    then have i: "i < n" by simp
    then have "i < 2 ^ 31" using assms(1) by simp
    then have "unat (2 * (of_nat i :: 32 word)) = 2 * i" by (rule unat_double)
    then show "i < length xs \<and> unat (2 * (of_nat i :: 32 word)) < length xs"
      using i assms(2) by simp
  qed
qed

lemma pull_buffered:
  assumes "bridge_ready x p i" and "frames_in (rsp i) \<noteq> 0"
  shows "get_next_buffer x (Some i) (Some b) w =
           Inr (0, Some (b\<lparr>raw := Some (in_buffer_frames (rsp i) - frames_in (rsp i)),
                          frame_count := min (frame_count b) (frames_in (rsp i))\<rparr>),
                Some i, w)"
  using assms
  by (auto simp: get_next_buffer_def bridge_ready_def min_def)

lemma pull_refill:
  assumes "bridge_ready x p i" and "frames_in (rsp i) = 0"
  shows "\<exists>i1. get_next_buffer x (Some i) (Some b) w =
           Inr (0, Some (b\<lparr>raw := Some 0,
                          frame_count := min (frame_count b) (in_buffer_frames (rsp i))\<rparr>),
                Some i1, emit [PcmRead (Some p) (in_buffer_size (rsp i))] w)
         \<and> frames_in (rsp i1) = in_buffer_frames (rsp i)
         \<and> bridge_ready x p i1
         \<and> in_buffer_frames (rsp i1) = in_buffer_frames (rsp i)
         \<and> in_buffer_size (rsp i1) = in_buffer_size (rsp i)"
proof -
  let ?N = "in_buffer_frames (rsp i)"
  obtain st bytes where rd: "pcm_read x (trace w) (Some p) (in_buffer_size (rsp i)) = (st, bytes)"
    by (cases "pcm_read x (trace w) (Some p) (in_buffer_size (rsp i))")
  have st: "st = 0"
    using assms(1) rd by (auto simp: bridge_ready_def dest: spec [where x = "trace w"])
  have p: "pcm i = Some p" and n: "0 \<le> sint ?N"
    and o: "\<forall>tr. fst (pcm_read x tr (Some p) (in_buffer_size (rsp i))) = 0"
    using assms(1) by (simp_all add: bridge_ready_def)
  let ?r2 = "(rsp i)\<lparr>buffer := map_option (store (le16 bytes)) (buffer (rsp i)),
                      read_status := 0, frames_in := ?N\<rparr>"
  show ?thesis
  proof (cases "channel_count i = 1 \<and> hw_channel_count i = 2 \<and> \<not> unat ?N \<le> 1")
    case False
    then have "get_next_buffer x (Some i) (Some b) w =
           Inr (0, Some (b\<lparr>raw := Some 0, frame_count := min (frame_count b) ?N\<rparr>),
                Some (i\<lparr>rsp := ?r2\<rparr>), emit [PcmRead (Some p) (in_buffer_size (rsp i))] w)"
      using assms(2) p rd st by (auto simp: get_next_buffer_def Let_def min_def)
    moreover have "bridge_ready x p (i\<lparr>rsp := ?r2\<rparr>)"
      using assms(1) by (auto simp: bridge_ready_def length_store)
    ultimately show ?thesis by auto
  next
    case True
    then obtain xs where xs: "buffer (rsp i) = Some xs" and len: "2 * unat ?N \<le> length xs"
      using assms(1) by (auto simp: bridge_ready_def)
    have "unat ?N < 2 ^ 31" using n by (rule unat_nonneg_int)
    from discard_right_range [OF this, of "store (le16 bytes) xs"] len
    obtain ys where ys: "discard_right [1..<unat ?N] (store (le16 bytes) xs) = Inr ys"
      and ly: "length ys = length xs"
      by (auto simp: length_store)
    have "get_next_buffer x (Some i) (Some b) w =
           Inr (0, Some (b\<lparr>raw := Some 0, frame_count := min (frame_count b) ?N\<rparr>),
                Some (i\<lparr>rsp := ?r2\<lparr>buffer := Some ys\<rparr>\<rparr>),
                emit [PcmRead (Some p) (in_buffer_size (rsp i))] w)"
      using assms(2) p rd st True xs ys by (auto simp: get_next_buffer_def Let_def min_def)
    moreover have "bridge_ready x p (i\<lparr>rsp := ?r2\<lparr>buffer := Some ys\<rparr>\<rparr>)"
      using assms(1) ly len by (auto simp: bridge_ready_def)
    ultimately show ?thesis by auto
  qed
qed


lemma release_ok:
  assumes "bridge_ready x p i1" and "c \<le> frames_in (rsp i1)"
  shows "\<exists>i2. release_buffer (Some i1) (Some (b\<lparr>frame_count := c\<rparr>)) = Some i2
           \<and> frames_in (rsp i2) = frames_in (rsp i1) - c
           \<and> unat (frames_in (rsp i2)) = unat (frames_in (rsp i1)) - unat c
           \<and> frames_in (rsp i2) \<le> frames_in (rsp i1)
           \<and> bridge_ready x p i2
           \<and> in_buffer_frames (rsp i2) = in_buffer_frames (rsp i1)
           \<and> in_buffer_size (rsp i2) = in_buffer_size (rsp i1)"
proof -
  let ?k = "frames_in (rsp i1)"
  let ?i2 = "i1\<lparr>rsp := (rsp i1)\<lparr>frames_in := ?k - c\<rparr>\<rparr>"
  have le: "?k - c \<le> ?k" using assms(2) by (rule word_sub_le)
  have u: "unat (?k - c) = unat ?k - unat c" using assms(2) by (rule unat_sub)
  have "?k \<le> in_buffer_frames (rsp i1)" using assms(1) by (simp add: bridge_ready_def)
  with le have "?k - c \<le> in_buffer_frames (rsp i1)" by (rule order_trans)
  then have "bridge_ready x p ?i2" using assms(1) by (simp add: bridge_ready_def)
  moreover have "release_buffer (Some i1) (Some (b\<lparr>frame_count := c\<rparr>)) = Some ?i2"
    by (simp add: release_buffer_def)
  ultimately show ?thesis using le u by simp
qed

lemma pull_any:
  assumes "bridge_ready x p i"
  shows "\<exists>i1. get_next_buffer x (Some i) (Some b) w =
           Inr (0, Some (b\<lparr>raw := Some (in_buffer_frames (rsp i) - after_pull i),
                          frame_count := min (frame_count b) (after_pull i)\<rparr>),
                Some i1,
                emit (if frames_in (rsp i) = 0
                      then [PcmRead (Some p) (in_buffer_size (rsp i))] else []) w)
         \<and> frames_in (rsp i1) = after_pull i
         \<and> bridge_ready x p i1
         \<and> in_buffer_frames (rsp i1) = in_buffer_frames (rsp i)
         \<and> in_buffer_size (rsp i1) = in_buffer_size (rsp i)"
proof (cases "frames_in (rsp i) = 0")
  case True
  from pull_refill [OF assms True, of b w] show ?thesis
    using True by (simp add: after_pull_def)
next
  case False
  have "emit [] w = w" by (simp add: emit_def)
  with pull_buffered [OF assms False, of b w] show ?thesis
    using False assms by (simp add: after_pull_def)
qed

lemma cycles_run:
  assumes "bridge_ready x p i"
  shows "\<exists>i' w' reads. pull_cycles x cs i w = Inr (i', w')
           \<and> bridge_ready x p i'
           \<and> trace w' = trace w @ reads
           \<and> set reads \<subseteq> {PcmRead (Some p) (in_buffer_size (rsp i))}
           \<and> in_buffer_frames (rsp i') = in_buffer_frames (rsp i)
           \<and> in_buffer_size (rsp i') = in_buffer_size (rsp i)
           \<and> (reads = [] \<longrightarrow> frames_in (rsp i') \<le> frames_in (rsp i))"
  using assms
proof (induction cs arbitrary: i w)
  case Nil
  then show ?case by simp
next
  case (Cons mc cs)
  obtain m c where mc: "mc = (m, c)" by (cases mc)
  define rd where "rd = (if frames_in (rsp i) = 0
                         then [PcmRead (Some p) (in_buffer_size (rsp i))] else [])"
  define off where "off = min m (after_pull i)"
  define c' where "c' = (if off < c then off else c)"
  define b1 where "b1 = \<lparr>raw = Some (in_buffer_frames (rsp i) - after_pull i), frame_count = off\<rparr>"
  from pull_any [OF Cons.prems, of "\<lparr>raw = None, frame_count = m\<rparr>" w] obtain i1 where
    g: "get_next_buffer x (Some i) (Some \<lparr>raw = None, frame_count = m\<rparr>) w =
          Inr (0, Some b1, Some i1, emit rd w)"
    and k1: "frames_in (rsp i1) = after_pull i"
    and r1: "bridge_ready x p i1"
    and n1: "in_buffer_frames (rsp i1) = in_buffer_frames (rsp i)"
    and s1: "in_buffer_size (rsp i1) = in_buffer_size (rsp i)"
    unfolding rd_def off_def b1_def by auto
  have cle: "c' \<le> frames_in (rsp i1)" using k1 by (auto simp: min_def c'_def off_def)
  from release_ok [OF r1 cle, of b1] obtain i2 where
    rl: "release_buffer (Some i1) (Some (b1\<lparr>frame_count := c'\<rparr>)) = Some i2"
    and k2: "frames_in (rsp i2) \<le> frames_in (rsp i1)"
    and r2: "bridge_ready x p i2"
    and n2: "in_buffer_frames (rsp i2) = in_buffer_frames (rsp i1)"
    and s2: "in_buffer_size (rsp i2) = in_buffer_size (rsp i1)"
    by blast
  from Cons.IH [OF r2, of "emit rd w"] obtain i' w' reads where
    run: "pull_cycles x cs i2 (emit rd w) = Inr (i', w')"
    and r': "bridge_ready x p i'"
    and t': "trace w' = trace (emit rd w) @ reads"
    and sub: "set reads \<subseteq> {PcmRead (Some p) (in_buffer_size (rsp i2))}"
    and n': "in_buffer_frames (rsp i') = in_buffer_frames (rsp i2)"
    and s': "in_buffer_size (rsp i') = in_buffer_size (rsp i2)"
    and mono: "reads = [] \<longrightarrow> frames_in (rsp i') \<le> frames_in (rsp i2)"
    by blast
  have fc: "frame_count b1 = off" by (simp add: b1_def)
  have step: "pull_cycles x (mc # cs) i w = Inr (i', w')"
    using rl run by (cases "off < c") (simp_all add: mc g fc c'_def)
  have tr: "trace w' = trace w @ (rd @ reads)"
    using t' by (simp add: emit_def)
  have sb: "set (rd @ reads) \<subseteq> {PcmRead (Some p) (in_buffer_size (rsp i))}"
    using sub s1 s2 by (auto simp: rd_def)
  have mn: "rd @ reads = [] \<longrightarrow> frames_in (rsp i') \<le> frames_in (rsp i)"
  proof
    assume e: "rd @ reads = []"
    then have nz: "frames_in (rsp i) \<noteq> 0" and "reads = []"
      by (auto simp: rd_def split: if_splits)
    then have "frames_in (rsp i') \<le> frames_in (rsp i2)" using mono by simp
    also have "\<dots> \<le> frames_in (rsp i1)" by (rule k2)
    also have "\<dots> = frames_in (rsp i)" using k1 nz by (simp add: after_pull_def)
    finally show "frames_in (rsp i') \<le> frames_in (rsp i)" .
  qed
  have ns: "in_buffer_frames (rsp i') = in_buffer_frames (rsp i)"
    "in_buffer_size (rsp i') = in_buffer_size (rsp i)"
    using n' n2 n1 s' s2 s1 by simp_all
  show ?case
    using step r' tr sb mn ns by blast
qed

text \<open>
  The frame accounting of the bridge. Let the bridge be ready with
  \<open>N = in_buffer_frames\<close>. A pull of \<open>m\<close> frames answers 0 and offers
  \<open>min m k\<close> frames, where \<open>k\<close> is the number of frames buffered (\<open>N\<close> when
  the buffer was empty and the pull filled it with one hardware read); the pointer it
  hands out is \<open>N - k\<close> 16-bit samples into the buffer. The pull reads the hardware
  once when the buffer was empty and not at all otherwise. A release with any
  consumed count \<open>c\<close> up to the offered count leaves exactly \<open>k - c\<close> frames
  buffered. Over any run of pull and release cycles the bridge stays ready, the only
  external calls are hardware reads, and as long as no hardware read was made the
  number of frames buffered has not grown.
\<close>

lemma resampler_bridge_counters:
  assumes "bridge_ready x p i"
  shows "(\<exists>b i1 w1.
            get_next_buffer x (Some i) (Some \<lparr>raw = r, frame_count = m\<rparr>) w
              = Inr (0, Some b, Some i1, w1)
          \<and> frame_count b = min m (after_pull i)
          \<and> raw b = Some (in_buffer_frames (rsp i) - after_pull i)
          \<and> unat (in_buffer_frames (rsp i) - after_pull i)
               = unat (in_buffer_frames (rsp i)) - unat (after_pull i)
          \<and> frames_in (rsp i1) = after_pull i
          \<and> trace w1 = trace w @ (if frames_in (rsp i) = 0
                                    then [PcmRead (Some p) (in_buffer_size (rsp i))] else [])
          \<and> (\<forall>c. c \<le> frame_count b \<longrightarrow>
                (\<exists>i2. release_buffer (Some i1) (Some (b\<lparr>frame_count := c\<rparr>)) = Some i2
                     \<and> unat (frames_in (rsp i2)) = unat (after_pull i) - unat c
                     \<and> frames_in (rsp i2) \<le> after_pull i
                     \<and> bridge_ready x p i2)))
       \<and> (\<exists>i' w' reads.
            pull_cycles x cs i w = Inr (i', w')
          \<and> bridge_ready x p i'
          \<and> trace w' = trace w @ reads
          \<and> set reads \<subseteq> {PcmRead (Some p) (in_buffer_size (rsp i))}
          \<and> (reads = [] \<longrightarrow> frames_in (rsp i') \<le> frames_in (rsp i)))"
proof
  let ?b = "\<lparr>raw = r, frame_count = m\<rparr>"
  let ?N = "in_buffer_frames (rsp i)"
  from pull_any [OF assms, of ?b w] obtain i1 where
    g: "get_next_buffer x (Some i) (Some ?b) w =
          Inr (0, Some (?b\<lparr>raw := Some (?N - after_pull i),
                          frame_count := min (frame_count ?b) (after_pull i)\<rparr>),
               Some i1,
               emit (if frames_in (rsp i) = 0
                     then [PcmRead (Some p) (in_buffer_size (rsp i))] else []) w)"
    and k1: "frames_in (rsp i1) = after_pull i"
    and r1: "bridge_ready x p i1"
    by blast
  let ?b1 = "?b\<lparr>raw := Some (?N - after_pull i),
                frame_count := min (frame_count ?b) (after_pull i)\<rparr>"
  have le: "after_pull i \<le> ?N"
    using assms by (simp add: bridge_ready_def after_pull_def)
  then have off: "unat (?N - after_pull i) = unat ?N - unat (after_pull i)"
    by (rule unat_sub)
  have rel: "\<forall>c. c \<le> frame_count ?b1 \<longrightarrow>
                (\<exists>i2. release_buffer (Some i1) (Some (?b1\<lparr>frame_count := c\<rparr>)) = Some i2
                     \<and> unat (frames_in (rsp i2)) = unat (after_pull i) - unat c
                     \<and> frames_in (rsp i2) \<le> after_pull i
                     \<and> bridge_ready x p i2)"
  proof (intro allI impI)
    fix c assume "c \<le> frame_count ?b1"
    then have "c \<le> frames_in (rsp i1)" using k1 by simp
    from release_ok [OF r1 this, of ?b1] show
      "\<exists>i2. release_buffer (Some i1) (Some (?b1\<lparr>frame_count := c\<rparr>)) = Some i2
           \<and> unat (frames_in (rsp i2)) = unat (after_pull i) - unat c
           \<and> frames_in (rsp i2) \<le> after_pull i
           \<and> bridge_ready x p i2"
      using k1 by auto
  qed
  show "\<exists>b i1 w1.
            get_next_buffer x (Some i) (Some ?b) w = Inr (0, Some b, Some i1, w1)
          \<and> frame_count b = min m (after_pull i)
          \<and> raw b = Some (?N - after_pull i)
          \<and> unat (?N - after_pull i) = unat ?N - unat (after_pull i)
          \<and> frames_in (rsp i1) = after_pull i
          \<and> trace w1 = trace w @ (if frames_in (rsp i) = 0
                                    then [PcmRead (Some p) (in_buffer_size (rsp i))] else [])
          \<and> (\<forall>c. c \<le> frame_count b \<longrightarrow>
                (\<exists>i2. release_buffer (Some i1) (Some (b\<lparr>frame_count := c\<rparr>)) = Some i2
                     \<and> unat (frames_in (rsp i2)) = unat (after_pull i) - unat c
                     \<and> frames_in (rsp i2) \<le> after_pull i
                     \<and> bridge_ready x p i2))"
    using g k1 off rel
    by (intro exI [of _ ?b1] exI [of _ i1]
              exI [of _ "emit (if frames_in (rsp i) = 0
                               then [PcmRead (Some p) (in_buffer_size (rsp i))] else []) w"])
       (simp add: emit_def)
next
  from cycles_run [OF assms, of cs w] show
    "\<exists>i' w' reads.
            pull_cycles x cs i w = Inr (i', w')
          \<and> bridge_ready x p i'
          \<and> trace w' = trace w @ reads
          \<and> set reads \<subseteq> {PcmRead (Some p) (in_buffer_size (rsp i))}
          \<and> (reads = [] \<longrightarrow> frames_in (rsp i') \<le> frames_in (rsp i))"
    by blast
qed

lemma stereo_open:
  "start_pcm_input_stream ext0 in_stereo world0 = Inr (0, in_stereo_open, world_stereo)"
  by (simp add: start_pcm_input_stream_def do_open_pcm_input_def in_pcm_fill_params_def
        in_get_sample_rate_def in_resampler_init_def in_pcm_cfg_channel_count_def
        in_pcm_cfg_rate_def in_pcm_cfg_period_size_def in_pcm_cfg_period_count_def
        in_stereo_def in_stereo_open_def world_stereo_def in0_def rsp0_def hw0_def
        ext0_def world0_def dev0_def emit_def Let_def)

lemma stereo_ready: "bridge_ready ext0 7 in_stereo_open"
  by (simp add: bridge_ready_def in_stereo_open_def in_stereo_def in0_def ext0_def)

text \<open>
  C4. The claim: a pull hands out the buffered frames at an offset equal to the
  frames already consumed. The source adds the count of consumed frames to a pointer
  to 16-bit samples (lines 1209 and 1210), and a frame of a two-channel stream is two
  samples. On \<open>in_stereo\<close>, opened by \<open>start_pcm_input_stream\<close>, the first pull
  of one frame points at sample 0 and offers one frame; frame 0 is the samples 0
  and 1. After the release of that frame, 1023 frames are buffered and the next pull
  points at sample 1, the right sample of the frame already consumed, and not at
  sample 2, where frame 1 begins. (The hardware read of that bridge fills 8192
  bytes, 2048 frames of 4 bytes, and the bridge counts 1024.)
\<close>

theorem stereo_pull_points_into_consumed_frame:
  "\<exists>b1 i1 w1 i2 b2 i3 w3.
      start_pcm_input_stream ext0 in_stereo world0 = Inr (0, in_stereo_open, world_stereo)
    \<and> channel_count in_stereo_open = 2 \<and> hw_channel_count in_stereo_open = 2
    \<and> frame_size in_stereo_open = 4
    \<and> in_buffer_size (rsp in_stereo_open) = 8192
    \<and> in_buffer_frames (rsp in_stereo_open) = 1024
    \<and> get_next_buffer ext0 (Some in_stereo_open) (Some \<lparr>raw = None, frame_count = 1\<rparr>)
          world_stereo = Inr (0, Some b1, Some i1, w1)
    \<and> raw b1 = Some 0 \<and> frame_count b1 = 1
    \<and> release_buffer (Some i1) (Some b1) = Some i2
    \<and> frames_in (rsp i2) = 1023
    \<and> get_next_buffer ext0 (Some i2) (Some \<lparr>raw = None, frame_count = 1\<rparr>) w1
          = Inr (0, Some b2, Some i3, w3)
    \<and> raw b2 = Some 1 \<and> frame_count b2 = 1"
proof -
  let ?rq = "\<lparr>raw = None, frame_count = 1 :: size_t\<rparr>"
  have a0: "after_pull in_stereo_open = 1024"
    and n0: "in_buffer_frames (rsp in_stereo_open) = 1024"
    by (simp_all add: after_pull_def in_stereo_open_def)
  from pull_any [OF stereo_ready, of ?rq world_stereo] obtain i1 w1 where
    g1: "get_next_buffer ext0 (Some in_stereo_open) (Some ?rq) world_stereo =
           Inr (0, Some \<lparr>raw = Some 0, frame_count = 1\<rparr>, Some i1, w1)"
    and k1: "frames_in (rsp i1) = 1024"
    and r1: "bridge_ready ext0 7 i1"
    and n1: "in_buffer_frames (rsp i1) = 1024"
    by (auto simp: a0 n0)
  have c1: "(1 :: size_t) \<le> frames_in (rsp i1)" by (simp add: k1)
  from release_ok [OF r1 c1, of "\<lparr>raw = Some 0, frame_count = 1\<rparr>"] obtain i2 where
    rl: "release_buffer (Some i1) (Some \<lparr>raw = Some 0, frame_count = 1\<rparr>) = Some i2"
    and k2: "frames_in (rsp i2) = 1023"
    and r2: "bridge_ready ext0 7 i2"
    and n2: "in_buffer_frames (rsp i2) = 1024"
    by (auto simp: k1 n1)
  have a2: "after_pull i2 = 1023" by (simp add: after_pull_def k2)
  from pull_any [OF r2, of ?rq w1] obtain i3 w3 where
    g2: "get_next_buffer ext0 (Some i2) (Some ?rq) w1 =
           Inr (0, Some \<lparr>raw = Some 1, frame_count = 1\<rparr>, Some i3, w3)"
    by (auto simp: a2 n2)
  have f: "channel_count in_stereo_open = 2" "hw_channel_count in_stereo_open = 2"
    "frame_size in_stereo_open = 4" "in_buffer_size (rsp in_stereo_open) = 8192"
    by (simp_all add: in_stereo_open_def in_stereo_def)
  show ?thesis
    using stereo_open f n0 g1 rl k2 g2
    by (intro exI [of _ "\<lparr>raw = Some 0, frame_count = 1\<rparr>"] exI [of _ i1] exI [of _ w1]
              exI [of _ i2] exI [of _ "\<lparr>raw = Some 1, frame_count = 1\<rparr>"]
              exI [of _ i3] exI [of _ w3]) simp
qed

section \<open>Properties of reading\<close>

lemma emit_Nil: "emit [] w = w"
  by (simp add: emit_def)


lemma realtime_delay_calls:
  assumes "frame_size i * sample_rate i \<noteq> 0 \<or> last_read_ns i = 0"
  shows "do_in_realtime_delay x i n w = Inr (emit (realtime_sleep x i n (trace w)) w)"
  using assms
  by (auto simp: do_in_realtime_delay_def realtime_sleep_def required_interval_def Let_def emit_Nil)



lemma sint_small:
  fixes b :: "32 word"
  assumes "uint b < 2 ^ 31"
  shows "sint b = uint b"
proof -
  have "sint b = signed_take_bit 31 (uint b)" by (simp add: sint_uint)
  also have "\<dots> = uint b"
  proof (rule signed_take_bit_int_eq_self)
    have "0 \<le> uint b" by simp
    then have "- 2147483648 \<le> uint b" by linarith
    then show "- (2 ^ 31) \<le> uint b" by simp
    show "uint b < 2 ^ 31" by (rule assms)
  qed
  finally show ?thesis .
qed

lemma take_memset0: "take (unat bytes) (memset0 buf bytes) = replicate (unat bytes) 0"
  by (simp add: memset0_def)




text \<open>
  What \<open>in_pcm_read\<close> does when no fault occurs. A failing PCM read, a compressed
  read without data and an error latched by the resampler bridge each make the read
  path return a value \<open>ret \<le> 0\<close>. Whenever the path returns \<open>ret \<le> 0\<close> or the
  device is muted, \<open>in_pcm_read\<close> returns the requested byte count, the first
  \<open>bytes\<close> bytes of the caller's buffer are zero, the read timestamp is the clock
  (1 when the clock is 0), and the calls it adds are the sleeps of the real-time
  delay for the whole byte count when \<open>ret \<le> 0\<close> and none when data was captured
  and the device is muted. This needs a byte count that fits the signed return type
  and, where the delay divides, a product \<^verbatim>\<open>frame_size * sample_rate\<close> other
  than 0.
\<close>

lemma pcm_path_failed_read:
  assumes "hw i = Some h" and "get_current_routes x (trace w) (Some h) \<noteq> 0"
    and "\<not> stream_is_compressed_in x (trace w) h" and "\<not> standby i"
    and "frame_size i \<noteq> 0" and "\<not> disable_audio (dev w)"
    and "resampler (rsp i) = None"
    and "pcm_read x (trace w) (pcm i) bytes = (r, got)" and "r < 0"
  shows "in_pcm_read_path x i buf bytes w =
           Some (Inr (r, store got buf, i, emit [PcmRead (pcm i) bytes] w))"
  using assms
  by (simp add: in_pcm_read_path_def do_in_pcm_read_def start_pcm_input_stream_def Let_def)

lemma compressed_path_no_data:
  assumes "hw i = Some h" and "get_current_routes x (trace w) (Some h) \<noteq> 0"
    and "stream_is_compressed_in x (trace w) h" and "\<not> standby i"
    and "compress_read x (trace w) (pcm i) bytes = (r, got)" and "r \<le> 0"
  shows "in_pcm_read_path x i buf bytes w =
           Some (Inr (r, store got buf, i, emit [CompressRead (pcm i) bytes] w))"
  using assms
  by (simp add: in_pcm_read_path_def do_in_compress_pcm_read_def
        start_compress_pcm_input_stream_def Let_def)

lemma resampled_path_latched_error:
  assumes "hw i = Some h" and "get_current_routes x (trace w) (Some h) \<noteq> 0"
    and "\<not> stream_is_compressed_in x (trace w) h" and "\<not> standby i"
    and "frame_size i \<noteq> 0" and "\<not> disable_audio (dev w)"
    and "resampler (rsp i) \<noteq> None"
    and "0 < sint (bytes div frame_size i)"
    and "resample_from_provider x i w buf 0 (bytes div frame_size i) = Inr (rd, i1, w1, buf1)"
    and "read_status (rsp i1) < 0"
  shows "in_pcm_read_path x i buf bytes w =
           Some (Inr (read_status (rsp i1), buf1, i1, w1))"
proof -
  have "read_resampled_frames x i buf (bytes div frame_size i) w =
          Some (Inr (read_status (rsp i1), buf1, i1, w1))"
    using assms(8-10)
    by (simp add: read_resampled_frames_def read_resampled_loop.simps [of x _ 0])
  then show ?thesis
    using assms(1-7,10)
    by (auto simp: in_pcm_read_path_def do_in_pcm_read_def start_pcm_input_stream_def Let_def)
qed


lemma read_timestamp_set:
  "last_read_ns (do_in_set_read_timestamp x i w)
     = (if systemTime x (trace w) = 0 then 1 else systemTime x (trace w))
   \<and> last_read_ns (do_in_set_read_timestamp x i w) \<noteq> 0"
  by (simp add: do_in_set_read_timestamp_def Let_def)

lemma silence_after_path:
  assumes "in_pcm_read_path x i buf bytes w = Some (Inr (ret0, buf1, i1, w1))"
    and "ret0 \<le> 0 \<or> mic_mute (dev w1)"
    and "ret0 \<le> 0 \<longrightarrow> frame_size i1 * sample_rate i1 \<noteq> 0 \<or> last_read_ns i1 = 0"
    and "uint bytes < 2 ^ 31"
    and "w2 = emit (if ret0 \<le> 0 then realtime_sleep x i1 bytes (trace w1) else []) w1"
  shows "in_pcm_read x i buf bytes w =
           Some (Inr (uint bytes, memset0 buf1 bytes, do_in_set_read_timestamp x i1 w2, w2))"
proof (cases "ret0 \<le> 0")
  case True
  then have "frame_size i1 * sample_rate i1 \<noteq> 0 \<or> last_read_ns i1 = 0"
    using assms(3) by simp
  then have "do_in_realtime_delay x i1 bytes w1 =
               Inr (emit (realtime_sleep x i1 bytes (trace w1)) w1)"
    by (rule realtime_delay_calls)
  then show ?thesis
    using assms(1,5) True sint_small [OF assms(4)] by (simp add: in_pcm_read_def)
next
  case False
  then have "mic_mute (dev w1)" using assms(2) by simp
  then show ?thesis
    using assms(1,5) False sint_small [OF assms(4)] by (simp add: in_pcm_read_def emit_Nil)
qed

lemma failed_pcm_read_is_silence:
  assumes "hw i = Some h" and "get_current_routes x (trace w) (Some h) \<noteq> 0"
    and "\<not> stream_is_compressed_in x (trace w) h" and "\<not> standby i"
    and "\<not> disable_audio (dev w)" and "resampler (rsp i) = None"
    and "pcm_read x (trace w) (pcm i) bytes = (r, got)" and "r < 0"
    and "frame_size i * sample_rate i \<noteq> 0" and "uint bytes < 2 ^ 31"
    and "w2 = emit (PcmRead (pcm i) bytes
                      # realtime_sleep x i bytes (trace w @ [PcmRead (pcm i) bytes])) w"
  shows "in_pcm_read x i buf bytes w =
           Some (Inr (uint bytes, memset0 (store got buf) bytes,
                      do_in_set_read_timestamp x i w2, w2))"
proof -
  have fs: "frame_size i \<noteq> 0" using assms(9) by auto
  let ?w1 = "emit [PcmRead (pcm i) bytes] w"
  have p: "in_pcm_read_path x i buf bytes w = Some (Inr (r, store got buf, i, ?w1))"
    using assms(1-4) fs assms(5-8) by (rule pcm_path_failed_read)
  have w: "w2 = emit (if r \<le> 0 then realtime_sleep x i bytes (trace ?w1) else []) ?w1"
    using assms(8,11) by (simp add: emit_def)
  show ?thesis
    using silence_after_path [OF p _ _ assms(10) w] assms(8,9) by simp
qed

lemma no_data_compressed_read_is_silence:
  assumes "hw i = Some h" and "get_current_routes x (trace w) (Some h) \<noteq> 0"
    and "stream_is_compressed_in x (trace w) h" and "\<not> standby i"
    and "compress_read x (trace w) (pcm i) bytes = (r, got)" and "r \<le> 0"
    and "frame_size i * sample_rate i \<noteq> 0" and "uint bytes < 2 ^ 31"
    and "w2 = emit (CompressRead (pcm i) bytes
                      # realtime_sleep x i bytes (trace w @ [CompressRead (pcm i) bytes])) w"
  shows "in_pcm_read x i buf bytes w =
           Some (Inr (uint bytes, memset0 (store got buf) bytes,
                      do_in_set_read_timestamp x i w2, w2))"
proof -
  let ?w1 = "emit [CompressRead (pcm i) bytes] w"
  have p: "in_pcm_read_path x i buf bytes w = Some (Inr (r, store got buf, i, ?w1))"
    using assms(1-6) by (rule compressed_path_no_data)
  have w: "w2 = emit (if r \<le> 0 then realtime_sleep x i bytes (trace ?w1) else []) ?w1"
    using assms(6,9) by (simp add: emit_def)
  show ?thesis
    using silence_after_path [OF p _ _ assms(8) w] assms(6,7) by simp
qed

lemma latched_resampler_error_is_silence:
  assumes "hw i = Some h" and "get_current_routes x (trace w) (Some h) \<noteq> 0"
    and "\<not> stream_is_compressed_in x (trace w) h" and "\<not> standby i"
    and "\<not> disable_audio (dev w)" and "resampler (rsp i) \<noteq> None"
    and "0 < sint (bytes div frame_size i)"
    and "resample_from_provider x i w buf 0 (bytes div frame_size i) = Inr (rd, i1, w1, buf1)"
    and "read_status (rsp i1) < 0"
    and "frame_size i \<noteq> 0" and "frame_size i1 * sample_rate i1 \<noteq> 0"
    and "uint bytes < 2 ^ 31"
    and "w2 = emit (realtime_sleep x i1 bytes (trace w1)) w1"
  shows "in_pcm_read x i buf bytes w =
           Some (Inr (uint bytes, memset0 buf1 bytes, do_in_set_read_timestamp x i1 w2, w2))"
proof -
  have p: "in_pcm_read_path x i buf bytes w = Some (Inr (read_status (rsp i1), buf1, i1, w1))"
    using assms(1-4) assms(10) assms(5-9) by (rule resampled_path_latched_error)
  have w: "w2 = emit (if read_status (rsp i1) \<le> 0
                      then realtime_sleep x i1 bytes (trace w1) else []) w1"
    using assms(9,13) by simp
  show ?thesis
    using silence_after_path [OF p _ _ assms(12) w] assms(9,11) by simp
qed

text \<open>
  C7. The claim: every read whose transport read fails or returns no data, or that
  is made while the microphone is muted, returns the requested byte count and a
  buffer of zeroes. The source divides by zero on such reads. With audio disabled
  and the microphone muted, a read of 640 bytes on the active 16 kHz mono stream
  \<open>in_active\<close> reaches \<^verbatim>\<open>sleep_time /= frame_size / sample_rate\<close> (lines 1738 and
  1739), where the divisor is \<open>2 / 16000 = 0\<close>. On the same stream with
  \<^verbatim>\<open>sample_rate\<close> 0, a value that \<open>in_get_sample_rate\<close> provides for, a failing
  read reaches \<open>do_in_realtime_delay\<close>, which divides by
  \<^verbatim>\<open>frame_size * sample_rate\<close> (line 1076). Neither read returns a buffer or a
  byte count.
\<close>

theorem read_divides_by_zero:
  "in_pcm_read ext0 in_active (replicate 640 7) 640 world_fake_muted = Some (Inl DivByZero)
   \<and> in_pcm_read ext_fail (in_active\<lparr>sample_rate := 0\<rparr>) (replicate 640 7) 640 world0
       = Some (Inl DivByZero)"
  by (simp add: in_pcm_read_def in_pcm_read_path_def do_in_pcm_read_def
        start_pcm_input_stream_def do_in_realtime_delay_def
        in_active_def in0_def rsp0_def ext_fail_def ext0_def world_fake_muted_def
        world0_def dev0_def store_def emit_def Let_def)

section \<open>Properties of output streams\<close>

lemma frames_cases:
  assumes "out_pcm_write_frames x out bytes w = Inr (ret, out', w')"
  shows "\<exists>d. (d = 0 \<or> d = ucast (bytes div out_frame_size out))
     \<and> hw_frames_written out' = hw_frames_written out + d
     \<and> hw_frames_rendered out' = hw_frames_rendered out + d
     \<and> out_standby out' = out_standby out"
  using assms
  by (auto simp: out_pcm_write_frames_def Let_def split: if_splits)

lemma fill_counters:
  "out_pcm_fill_params x out c = Inr out' \<Longrightarrow>
     hw_frames_written out' = hw_frames_written out \<and> hw_frames_rendered out' = hw_frames_rendered out
     \<and> out_standby out' = out_standby out \<and> out_frame_size out' = out_frame_size out"
  by (auto simp: out_pcm_fill_params_def split: if_splits)

lemma start_counters:
  "start_output_pcm x out w = Inr (ret, out', w') \<Longrightarrow>
     hw_frames_written out' = hw_frames_written out \<and> hw_frames_rendered out' = hw_frames_rendered out
     \<and> out_standby out' = out_standby out \<and> out_frame_size out' = out_frame_size out"
  by (auto simp: start_output_pcm_def Let_def split: if_splits option.splits sum.splits dest!: fill_counters)

lemma write_counters:
  assumes "out_pcm_write x out bytes w = Inr (ret, out', w')"
  shows "\<exists>d. (d = 0 \<or> d = ucast (bytes div out_frame_size out))
     \<and> hw_frames_written out' = hw_frames_written out + d
     \<and> hw_frames_rendered out' =
         (if out_standby out \<and> \<not> out_standby out' then 0 else hw_frames_rendered out) + d"
proof (cases "get_current_routes x (trace w) (Some (out_hw out)) = 0")
  case True
  then show ?thesis using assms by (simp add: out_pcm_write_def)
next
  case routed: False
  show ?thesis
  proof (cases "out_standby out")
    case False
    then have "out_pcm_write_frames x out bytes w = Inr (ret, out', w')"
      using assms routed by (simp add: out_pcm_write_def)
    from frames_cases [OF this] show ?thesis using False by auto
  next
    case True
    then obtain r1 out1 w1 where s: "start_output_pcm x out w = Inr (r1, out1, w1)"
      using assms routed by (auto simp: out_pcm_write_def split: sum.splits)
    note c = start_counters [OF s]
    show ?thesis
    proof (cases "r1 = 0")
      case False
      then have "out' = out1" using assms routed True s by (simp add: out_pcm_write_def)
      then show ?thesis using c True by simp
    next
      case r0: True
      let ?o2 = "out1\<lparr>out_standby := False, hw_frames_rendered := 0\<rparr>"
      have "out_pcm_write_frames x ?o2 bytes w1 = Inr (ret, out', w')"
        using assms routed True s r0 by (simp add: out_pcm_write_def)
      from frames_cases [OF this] show ?thesis using c True by auto
    qed
  qed
qed

lemma mono64: "(a :: 64 word) < 2 ^ 63 \<Longrightarrow> a \<le> a + ucast (b :: 32 word)"
proof -
  assume "a < 2 ^ 63"
  then have "uint a < 2 ^ 63" by (simp add: word_less_def)
  moreover have "uint (ucast b :: 64 word) < 2 ^ 32"
    using uint_lt2p [of b] by (simp add: uint_up_ucast is_up)
  ultimately have "uint a + uint (ucast b :: 64 word) < 2 ^ 64" by simp
  then show ?thesis by (simp add: no_olen_add)
qed

lemma sint_sub_add:
  fixes a :: "64 word" and b c :: "32 word"
  assumes "uint a < 2 ^ 62"
  shows "sint (a - ucast b + ucast c) = uint a - uint b + uint c"
proof -
  have b: "uint b < 2 ^ 32" and c: "uint c < 2 ^ 32"
    using uint_lt2p [of b] uint_lt2p [of c] by simp_all
  have "a - ucast b + ucast c = (word_of_int (uint a - uint b + uint c) :: 64 word)"
    by (simp add: word_of_int_uint) 
  then have "sint (a - ucast b + ucast c) = signed_take_bit 63 (uint a - uint b + uint c)"
    by (simp only: sint_sbintrunc') simp
  also have "\<dots> = uint a - uint b + uint c"
  proof (rule signed_take_bit_int_eq_self)
    have a0: "0 \<le> uint a" and c0: "0 \<le> uint c" by simp_all
    have a1: "uint a < 4611686018427387904" using assms by simp
    have b1: "uint b < 4294967296" and c1: "uint c < 4294967296" using b c by simp_all
    have "- 9223372036854775808 \<le> uint a - uint b + uint c"
      using a0 c0 b1 by linarith
    then show "- (2 ^ 63) \<le> uint a - uint b + uint c" by simp
    have "uint a - uint b + uint c < 9223372036854775808"
      using a1 c1 uint_ge_0 [of b] by linarith
    then show "uint a - uint b + uint c < 2 ^ 63" by simp
  qed
  finally show ?thesis .
qed

lemma uint_mult32:
  fixes p q :: "32 word"
  assumes "uint p * uint q < 2 ^ 32"
  shows "uint (p * q) = uint p * uint q"
  using assms by (simp add: uint_word_ariths take_bit_int_eq_self)


lemma out0_simps: "out0 = \<lparr>out_hw = hw0, out_standby = True, out_format = 1, out_channel_mask = 3,
      out_channel_count = 2, out_sample_rate = 48000, out_frame_size = 4,
      out_buffer_size = 1024, latency = 0, out_pcm = None, out_hw_sample_rate = 0,
      out_hw_channel_count = 0, out_hw_period_size = 0, out_hw_period_count = 0,
      hw_frames_written = 0, hw_frames_rendered = 0\<rparr>"
  by (simp add: out0_def do_init_out_pcm_def out_pcm_cfg_period_size_def hw0_def)

lemma write_8192:
  "out_pcm_write ext0 out0 8192 world0 = Inr (8192, out_active, world_active)"
  by (simp add: out_pcm_write_def out_pcm_write_frames_def start_output_pcm_def
        out_pcm_fill_params_def out_pcm_cfg_channel_count_def out_pcm_cfg_rate_def
        out_pcm_cfg_period_size_def out_pcm_cfg_period_count_def PCM_FORMAT_S16_LE_def
        out0_simps ext0_def world0_def dev0_def hw0_def emit_def Let_def
        out_active_def world_active_def)

text \<open>
  C6, as the source has it. A write to an output stream whose route has no active
  device returns 0, the count of bytes consumed, whatever the requested byte count
  is; the stream and the world are returned as they were, so the trace has no new
  call and nothing reaches the transport.
\<close>

theorem unrouted_write_consumes_nothing:
  assumes "get_current_routes x (trace w) (Some (out_hw out)) = 0"
  shows "out_pcm_write x out bytes w = Inr (0, out, w)"
  using assms by (simp add: out_pcm_write_def)

theorem unrouted_write_consumes_nothing_witness:
  "get_current_routes ext_unrouted (trace world_active) (Some (out_hw out_active)) = 0
   \<and> out_pcm_write ext_unrouted out_active 1024 world_active = Inr (0, out_active, world_active)"
proof -
  have h: "get_current_routes ext_unrouted (trace world_active) (Some (out_hw out_active)) = 0"
    by (simp add: ext_unrouted_def)
  show ?thesis using unrouted_write_consumes_nothing [OF h] h by simp
qed

text \<open>
  C6, as the claim words it, fails: a write of 1024 bytes (256 frames of 4 bytes)
  with no device routed returns 0 and not 1024.
\<close>

theorem unrouted_write_returns_zero_not_bytes:
  "out_pcm_write ext_unrouted out0 1024 world0 = Inr (0, out0, world0)
   \<and> (0 :: int) \<noteq> sint (1024 :: size_t)"
  by (simp add: out_pcm_write_def ext_unrouted_def)

text \<open>
  C5, as the source has it. Whenever \<open>out_pcm_write\<close> returns, both counters
  have advanced by the same amount, which is 0 or \<open>bytes / frame_size\<close>;
  \<open>hw_frames_rendered\<close> starts again from 0 when the write took the stream from
  standby to active, \<open>hw_frames_written\<close> never does. Below \<open>2 ^ 63\<close> the 64-bit
  counters do not wrap, so \<open>hw_frames_written\<close> never decreases and
  \<open>hw_frames_rendered\<close> does not decrease while the stream is active. Both are 0
  after construction.
\<close>

theorem out_frame_counters:
  assumes "out_pcm_write x out bytes w = Inr (ret, out', w')"
  shows "(\<exists>d. (d = 0 \<or> d = ucast (bytes div out_frame_size out))
            \<and> hw_frames_written out' = hw_frames_written out + d
            \<and> hw_frames_rendered out' =
                (if out_standby out \<and> \<not> out_standby out' then 0 else hw_frames_rendered out) + d)
       \<and> (hw_frames_written out < 2 ^ 63 \<longrightarrow> hw_frames_written out \<le> hw_frames_written out')
       \<and> (\<not> out_standby out \<and> hw_frames_rendered out < 2 ^ 63
            \<longrightarrow> hw_frames_rendered out \<le> hw_frames_rendered out')
       \<and> hw_frames_written (do_init_out_pcm out) = 0
       \<and> hw_frames_rendered (do_init_out_pcm out) = 0"
proof -
  from write_counters [OF assms] obtain d where
    d: "d = 0 \<or> d = ucast (bytes div out_frame_size out)"
    and wr: "hw_frames_written out' = hw_frames_written out + d"
    and rn: "hw_frames_rendered out' =
               (if out_standby out \<and> \<not> out_standby out' then 0 else hw_frames_rendered out) + d"
    by blast
  have m: "a \<le> a + d" if "a < 2 ^ 63" for a
    using d that mono64 [of a "bytes div out_frame_size out"] by auto
  have "hw_frames_written out < 2 ^ 63 \<longrightarrow> hw_frames_written out \<le> hw_frames_written out'"
    using wr m by simp
  moreover have "\<not> out_standby out \<and> hw_frames_rendered out < 2 ^ 63
                   \<longrightarrow> hw_frames_rendered out \<le> hw_frames_rendered out'"
    using rn m by simp
  moreover have "hw_frames_written (do_init_out_pcm out) = 0
               \<and> hw_frames_rendered (do_init_out_pcm out) = 0"
    by (simp add: do_init_out_pcm_def)
  ultimately show ?thesis using d wr rn by blast
qed

theorem out_frame_counters_witness:
  "out_pcm_write ext0 out0 8192 world0 = Inr (8192, out_active, world_active)
   \<and> out_standby out0 \<and> \<not> out_standby out_active
   \<and> hw_frames_written out0 = 0 \<and> hw_frames_written out_active = 2048
   \<and> hw_frames_rendered out_active = 2048
   \<and> hw_frames_written out0 \<le> hw_frames_written out_active"
  using out_frame_counters [OF write_8192] write_8192
  by (simp add: out_active_def out0_simps)

text \<open>
  C5, as the claim words it, fails. A first write of 1024 bytes to the new stream
  makes it active with 256 frames written and rendered. After standby a second write
  of 1024 bytes makes it active again: \<open>hw_frames_rendered\<close> is 256, it started
  again from 0, and \<open>hw_frames_written\<close> is 512, it was not reset.
\<close>

theorem frames_written_survives_standby:
  "(case out_pcm_write ext0 out0 1024 world0 of
      Inl f \<Rightarrow> False
    | Inr (r1, o1, w1) \<Rightarrow>
        (case do_out_pcm_standby o1 w1 of
           (o2, w2) \<Rightarrow>
             (case out_pcm_write ext0 o2 1024 w2 of
                Inl f \<Rightarrow> False
              | Inr (r3, o3, w3) \<Rightarrow>
                  \<not> out_standby o1 \<and> out_standby o2 \<and> \<not> out_standby o3
                \<and> hw_frames_written o2 = 256 \<and> hw_frames_rendered o2 = 256
                \<and> hw_frames_written o3 = 512 \<and> hw_frames_rendered o3 = 256)))"
  by (simp add: out_pcm_write_def out_pcm_write_frames_def start_output_pcm_def
        out_pcm_fill_params_def out_pcm_cfg_channel_count_def out_pcm_cfg_rate_def
        out_pcm_cfg_period_size_def out_pcm_cfg_period_count_def PCM_FORMAT_S16_LE_def
        do_out_pcm_standby_def
        out0_simps ext0_def world0_def dev0_def hw0_def emit_def Let_def)

text \<open>
  C8, as the source has it. While the period product fits 32 bits and fewer than
  \<open>2 ^ 62\<close> frames were written, the 64-bit sum of the source is the integer
  \<open>presented_value\<close>. With an open transport the function reports that value
  exactly when the timestamp query returns 0 and the value is not negative. With no
  transport open (in standby) it queries nothing, writes no timestamp and reports
  \<open>framesWritten - hwPeriodSize * hwPeriodCount\<close> when that is not negative.
  In every other case it returns \<open>-EINVAL\<close> and writes no frame count.
\<close>

theorem presentation_position_reported:
  assumes "uint (out_hw_period_size out) * uint (out_hw_period_count out) < 2 ^ 32"
      and "uint (hw_frames_written out) < 2 ^ 62"
  shows "out_get_presentation_position x out w =
     (case out_pcm out of
        Some p \<Rightarrow>
          (case pcm_get_htimestamp x (trace w) p of
             (r, avail, ts) \<Rightarrow>
               if r = 0 \<and> 0 \<le> presented_value out avail
               then (0, Some (word_of_int (presented_value out avail)), Some ts)
               else (- EINVAL, None, Some ts))
      | None \<Rightarrow>
          if 0 \<le> presented_value out 0
          then (0, Some (word_of_int (presented_value out 0)), None)
          else (- EINVAL, None, None))"
proof -
  let ?k = "out_hw_period_size out * out_hw_period_count out"
  have k: "uint ?k = uint (out_hw_period_size out) * uint (out_hw_period_count out)"
    using assms(1) by (rule uint_mult32)
  have s: "sint (hw_frames_written out - ucast ?k + ucast a) = presented_value out a" for a
    using sint_sub_add [OF assms(2), of ?k a] k by (simp add: presented_value_def)
  have s0: "sint (hw_frames_written out - ucast ?k) = presented_value out 0"
    using s [of 0] by simp
  have v: "hw_frames_written out - ucast ?k + ucast a = word_of_int (presented_value out a)" for a
  proof -
    have "(word_of_int (presented_value out a) :: 64 word) =
            word_of_int (uint (hw_frames_written out) - uint ?k + uint a)"
      by (simp only: presented_value_def k)
    also have "\<dots> = hw_frames_written out - ucast ?k + ucast a"
      by simp
    finally show ?thesis by simp
  qed
  have v0: "hw_frames_written out - ucast ?k = word_of_int (presented_value out 0)"
    using v [of 0] by simp
  have sv: "sint (word_of_int (presented_value out a) :: 64 word) = presented_value out a" for a
    using s [of a] by (simp only: v)
  show ?thesis
  proof (cases "out_pcm out")
    case None
    then show ?thesis
      by (simp add: out_get_presentation_position_def Let_def v0 sv)
  next
    case (Some p)
    then show ?thesis
      by (simp add: out_get_presentation_position_def Let_def v sv split: prod.split)
  qed
qed


theorem presentation_position_reported_witness:
  "uint (out_hw_period_size out_active) * uint (out_hw_period_count out_active) < 2 ^ 32
   \<and> uint (hw_frames_written out_active) < 2 ^ 62
   \<and> out_get_presentation_position ext0 out_active world_active
       = (0, Some 1152, Some \<lparr>tv_sec = 5, tv_nsec = 0\<rparr>)"
proof -
  have h1: "uint (out_hw_period_size out_active) * uint (out_hw_period_count out_active) < 2 ^ 32"
    by (simp add: out_active_def)
  have h2: "uint (hw_frames_written out_active) < 2 ^ 62"
    by (simp add: out_active_def)
  show ?thesis
    using presentation_position_reported [OF h1 h2, of ext0 world_active] h1 h2
    by (simp add: presented_value_def out_active_def ext0_def)
qed

text \<open>
  C8, as the claim words it, fails. After 8192 bytes (2048 frames) were written and
  the stream went to standby, no transport is open; the function returns success
  with 1024 frames and no timestamp was asked for.
\<close>

theorem presentation_position_without_transport:
  "(case out_pcm_write ext0 out0 8192 world0 of
      Inl f \<Rightarrow> False
    | Inr (r1, o1, w1) \<Rightarrow>
        (case do_out_pcm_standby o1 w1 of
           (o2, w2) \<Rightarrow>
             out_pcm o2 = None
           \<and> out_get_presentation_position ext0 o2 w2 = (0, Some 1024, None)))"
  unfolding write_8192
  by (simp add: do_out_pcm_standby_def out_get_presentation_position_def
        out_active_def out0_simps Let_def)

section \<open>Properties of input-source switching\<close>

text \<open>
  C3. On a stream that is not in standby, \<open>change_input_source_locked\<close> returns
  \<open>-EINVAL\<close> for every requested source and device set, reports no change, and
  leaves the stream (its input source and its hardware handle among the rest) and the
  world (the registration of the voice-control input among the rest) as they were.
\<close>

theorem change_input_source_while_active:
  assumes "\<not> standby i"
  shows "(case change_input_source_locked x a i v d w of
            (ret, changed, i', w') \<Rightarrow>
              ret = - EINVAL \<and> \<not> changed
            \<and> input_source i' = input_source i \<and> hw i' = hw i
            \<and> active_voice_control (dev w') = active_voice_control (dev w)
            \<and> i' = i \<and> w' = w)"
  using assms by (simp add: change_input_source_locked_def)

theorem change_input_source_while_active_witness:
  "\<not> standby (in0\<lparr>standby := False\<rparr>)
   \<and> change_input_source_locked ext0 2 (in0\<lparr>standby := False\<rparr>) ''6'' 4 world_fired
       = (- 22, False, in0\<lparr>standby := False\<rparr>, world_fired)"
proof -
  have h: "\<not> standby (in0\<lparr>standby := False\<rparr>)" by simp
  show ?thesis
    using change_input_source_while_active
            [where i = "in0\<lparr>standby := False\<rparr>" and x = ext0 and a = 2
               and v = "''6''" and d = 4 and w = world_fired, OF h]
    by (auto simp: EINVAL_def split: prod.splits)
qed

lemma dev_emit: "dev (emit cs w) = dev w"
  by (simp add: emit_def)

lemma dev_in_resampler_free: "in_resampler_free i w = (i', w') \<Longrightarrow> dev w' = dev w"
  by (auto simp: in_resampler_free_def dev_emit split: option.splits)

lemma dev_do_in_pcm_standby: "do_in_pcm_standby i w = (i', w') \<Longrightarrow> dev w' = dev w"
  by (auto simp: do_in_pcm_standby_def dev_emit split: prod.splits if_splits
           dest!: dev_in_resampler_free)

lemma dev_do_in_compress_pcm_standby:
  "do_in_compress_pcm_standby i w = (i', w') \<Longrightarrow> dev w' = dev w"
  by (auto simp: do_in_compress_pcm_standby_def dev_emit split: if_splits)

lemma dev_in_pcm_standby: "in_pcm_standby x i w = (i', w') \<Longrightarrow> dev w' = dev w"
  by (auto simp: in_pcm_standby_def split: option.splits if_splits
           dest: dev_do_in_pcm_standby dev_do_in_compress_pcm_standby)

lemma voice_st_started:
  "voice_st (dev (voice_trigger_audio_started_locked w)) =
     spec_table (voice_st (dev w)) AudioCaptureStarted"
  using vt_run_table [of undefined w AudioCaptureStarted] by simp

lemma voice_st_ended:
  "voice_st (dev (voice_trigger_audio_ended_locked w)) =
     spec_table (voice_st (dev w)) AudioCaptureEnded"
  using vt_run_table [of undefined w AudioCaptureEnded] by simp

lemma audio_started_dev:
  "active_voice_control (dev (voice_trigger_audio_started_locked w)) = active_voice_control (dev w)"
  "voice_trig_stream (dev (voice_trigger_audio_started_locked w)) = voice_trig_stream (dev w)"
  "trace (voice_trigger_audio_started_locked w) = trace w"
  by (cases "voice_st (dev w)"; simp add: voice_trigger_audio_started_locked_def set_voice_st_def)+

lemma audio_ended_avc:
  "active_voice_control (dev (voice_trigger_audio_ended_locked w)) = active_voice_control (dev w)"
  by (cases "voice_st (dev w)";
      simp add: voice_trigger_audio_ended_locked_def set_voice_st_def
                do_voice_trigger_close_stream_def emit_def split: option.split)

lemma close_other:
  assumes "active_voice_control (dev w) \<noteq> Some b"
  shows "dev (do_close_in_common x b j w) = dev w"
proof -
  obtain i1 w1 where s: "in_pcm_standby x j w = (i1, w1)" by (cases "in_pcm_standby x j w")
  have "dev w1 = dev w" using dev_in_pcm_standby [OF s] .
  then show ?thesis using assms s
    by (simp add: do_close_in_common_def dev_emit Let_def split: option.split)
qed

lemma close_registered:
  assumes "active_voice_control (dev w) = Some a"
  shows "voice_st (dev (do_close_in_common x a j w)) = spec_table (voice_st (dev w)) AudioCaptureEnded
       \<and> active_voice_control (dev (do_close_in_common x a j w)) = None"
proof -
  obtain i1 w1 where s: "in_pcm_standby x j w = (i1, w1)" by (cases "in_pcm_standby x j w")
  have d: "dev w1 = dev w" using dev_in_pcm_standby [OF s] .
  show ?thesis using assms s d
    by (simp add: do_close_in_common_def dev_emit Let_def voice_st_ended audio_ended_avc
             split: option.split)
qed

text \<open>
  C2, as the source has it. The registration is one reference, so at most one stream
  is registered. When a stream in standby switches to the voice-recognition source
  and a route is found, the registration is overwritten with that stream, whoever held
  it before, and the arbitrator receives \<open>audioCaptureStarted\<close> and nothing else:
  its state is the table's \<open>AudioCaptureStarted\<close> successor of the state before, and
  the dedicated route is not touched. \<open>audioCaptureEnded\<close> is emitted only for the
  registered stream itself, when it is closed; closing any other stream (the displaced
  one too) leaves the device context as it is.
\<close>

theorem voice_control_registration_overwrites:
  assumes "standby i" and "atoi x v = AUDIO_SOURCE_VOICE_RECOGNITION"
    and "input_source i \<noteq> AUDIO_SOURCE_VOICE_RECOGNITION"
    and "change_input_source_locked x a i v d w = (0, ch, i', w')"
  shows "(\<forall>b. registered w' b = (b = a))
       \<and> voice_st (dev w') = spec_table (voice_st (dev w)) AudioCaptureStarted
       \<and> voice_trig_stream (dev w') = voice_trig_stream (dev w)
       \<and> (\<forall>b j. b \<noteq> a \<longrightarrow> dev (do_close_in_common x b j w') = dev w')
       \<and> (\<forall>j. voice_st (dev (do_close_in_common x a j w'))
                 = spec_table (voice_st (dev w')) AudioCaptureEnded
              \<and> active_voice_control (dev (do_close_in_common x a j w')) = None)"
proof -
  have r: "active_voice_control (dev w') = Some a"
    and s: "voice_st (dev w') = spec_table (voice_st (dev w)) AudioCaptureStarted"
    and t: "voice_trig_stream (dev w') = voice_trig_stream (dev w)"
    using assms
    by (auto simp: change_input_source_locked_def Let_def dev_emit EINVAL_def
                   voice_st_started audio_started_dev
             split: option.splits prod.splits if_splits)
  have "\<forall>b. registered w' b = (b = a)"
    using r by (auto simp: registered_def)
  moreover have "\<forall>b j. b \<noteq> a \<longrightarrow> dev (do_close_in_common x b j w') = dev w'"
    using r by (simp add: close_other)
  moreover have "\<forall>j. voice_st (dev (do_close_in_common x a j w'))
                        = spec_table (voice_st (dev w')) AudioCaptureEnded
                    \<and> active_voice_control (dev (do_close_in_common x a j w')) = None"
    using close_registered [OF r] by simp
  ultimately show ?thesis using s t by simp
qed

lemma first_registration:
  "change_input_source_locked ext0 1 in0 ''6'' 4 world_fired =
     (0, True, in0\<lparr>hw := Some hw0, input_source := 6\<rparr>, world_audio)"
  by (simp add: change_input_source_locked_def ext0_def in0_def world_fired_def world0_def
        dev0_def world_audio_def AUDIO_SOURCE_VOICE_RECOGNITION_def voice_trigger_audio_stream_name_def
        emit_def voice_trigger_audio_started_locked_def set_voice_st_def Let_def
        kVoiceRecogStreamName_def)

theorem voice_control_registration_overwrites_witness:
  "standby in0 \<and> atoi ext0 ''6'' = AUDIO_SOURCE_VOICE_RECOGNITION
   \<and> input_source in0 \<noteq> AUDIO_SOURCE_VOICE_RECOGNITION
   \<and> (\<exists>ch i' w'. change_input_source_locked ext0 2 in0 ''6'' 4 world_audio = (0, ch, i', w')
         \<and> registered w' 2 \<and> \<not> registered w' 1
         \<and> voice_st (dev w') = eVoiceRecogAudio
         \<and> dev (do_close_in_common ext0 1 in0 w') = dev w'
         \<and> voice_st (dev (do_close_in_common ext0 2 in0 w')) = eVoiceRecogIdle)"
proof -
  have h1: "standby in0" by (simp add: in0_def)
  have h2: "atoi ext0 ''6'' = AUDIO_SOURCE_VOICE_RECOGNITION"
    by (simp add: ext0_def AUDIO_SOURCE_VOICE_RECOGNITION_def)
  have h3: "input_source in0 \<noteq> AUDIO_SOURCE_VOICE_RECOGNITION"
    by (simp add: in0_def AUDIO_SOURCE_VOICE_RECOGNITION_def)
  obtain ch i' w' where
    e: "change_input_source_locked ext0 2 in0 ''6'' 4 world_audio = (0, ch, i', w')"
    by (simp add: change_input_source_locked_def ext0_def in0_def world_audio_def dev0_def
          AUDIO_SOURCE_VOICE_RECOGNITION_def voice_trigger_audio_stream_name_def Let_def)
  have v: "voice_st (dev world_audio) = eVoiceRecogAudio"
    by (simp add: world_audio_def dev0_def)
  show ?thesis
    using voice_control_registration_overwrites [OF h1 h2 h3 e] h1 h2 h3 e v
    by auto
qed

text \<open>
  C2, as the claim words it, fails. In \<open>world_fired\<close> the stream at address 1 takes
  the voice-recognition source and is registered; the arbitrator is in
  \<open>eVoiceRecogAudio\<close>. Then the stream at address 2 takes the same source: it is
  registered in place of stream 1 and the arbitrator stays in \<open>eVoiceRecogAudio\<close>.
  Had \<open>audioCaptureEnded\<close> been emitted for stream 1 before the new registration,
  the table would have led to \<open>eVoiceRecogIdle\<close>.
\<close>

theorem displaced_registration_gets_no_capture_ended:
  "(case change_input_source_locked ext0 1 in0 ''6'' 4 world_fired of
      (ret1, ch1, i1, w1) \<Rightarrow>
        (case change_input_source_locked ext0 2 in0 ''6'' 4 w1 of
           (ret2, ch2, i2, w2) \<Rightarrow>
              ret1 = 0 \<and> registered w1 1 \<and> voice_st (dev w1) = eVoiceRecogAudio
            \<and> ret2 = 0 \<and> registered w2 2
            \<and> voice_st (dev w2) = eVoiceRecogAudio
            \<and> foldl spec_table (voice_st (dev w1)) [AudioCaptureEnded, AudioCaptureStarted]
                = eVoiceRecogIdle
            \<and> voice_st (dev w2)
                \<noteq> foldl spec_table (voice_st (dev w1)) [AudioCaptureEnded, AudioCaptureStarted]))"
  by (simp add: change_input_source_locked_def ext0_def in0_def world_fired_def world0_def dev0_def
        AUDIO_SOURCE_VOICE_RECOGNITION_def voice_trigger_audio_stream_name_def emit_def
        voice_trigger_audio_started_locked_def set_voice_st_def registered_def Let_def)

end
